theory Spec2Isabelle
  imports Complex_Main
begin

section \<open>The HP E3631A driver: wire text, properties and channel-scoped operations\<close>

text \<open>
  This theory embeds \<^verbatim>\<open>pymeasure/instruments/hp/hpE3631A.py\<close>. The class
  \<^verbatim>\<open>HPE3631A\<close> declares SCPI-backed properties and four methods that select one of
  three outputs before writing a setpoint or reading a measurement.

  Conventions of the embedding:
  \<^item> Python numbers (the \<^verbatim>\<open>value\<close> arguments, the range bounds) are rationals. The code
    only compares them and formats them; no arithmetic is done on them. Infinities and NaN
    are outside the model.
  \<^item> A channel argument (\<^verbatim>\<open>select\<close>) is a Python integer, \<^typ>\<open>int\<close>.
  \<^item> An exception is a value \<open>Inl e\<close>; every operation returns its result together with
    the state reached at that point, so what was done before a raise stays done.
  \<^item> Every write, query and sleep is appended to a trace kept in the state, so that
    what a method did on the transport, and in which order, can be stated.
\<close>

subsection \<open>Errors\<close>

datatype error =
    NotImplementedError
  | InvalidChannelError
  | ValidationError
  | TransportError
  | TypeError
  | ValueError

subsection \<open>Text on the wire\<close>

text \<open>
  Text sent to and received from the instrument is a list of symbols. A symbol is a
  character, or \<open>Num q\<close>: the decimal rendering of the number \<open>q\<close> produced by a numeric
  conversion of Python's \<^verbatim>\<open>%\<close> operator, kept as one symbol so that the digits need not
  be generated. Text typed by hand (a response such as \<^verbatim>\<open>"1.500","0.200"\<close>) consists
  of characters only.
\<close>

datatype sym = Ch char | Num rat

type_synonym wire = "sym list"

definition lit :: "string \<Rightarrow> wire" where
  "lit s = map Ch s"

fun chars :: "wire \<Rightarrow> string option" where
  "chars [] = Some []"
| "chars (Ch c # t) = map_option ((#) c) (chars t)"
| "chars (Num q # t) = None"

definition dquote :: char where
  "dquote = CHR 0x22"

subsection \<open>Python's numeric conversions\<close>

text \<open>
  \<^verbatim>\<open>%g\<close> renders a number with six significant digits, rounding the rest away (ties to
  even). \<open>sig6 q\<close> is the number that rendering denotes: with \<open>e\<close> the decimal exponent of
  \<open>q\<close>, it is \<open>q\<close> rounded to a multiple of \<open>10 ^ (e - 5)\<close>.
\<close>

fun ndigits :: "nat \<Rightarrow> nat" where
  "ndigits n = (if n < 10 then 1 else Suc (ndigits (n div 10)))"

declare ndigits.simps [simp del]

definition decexp :: "rat \<Rightarrow> int" where
  "decexp q = (let a = \<bar>q\<bar> in
     if 1 \<le> a then int (ndigits (nat \<lfloor>a\<rfloor>)) - 1
     else - int (ndigits (nat (\<lceil>1 / a\<rceil> - 1))))"

definition round_half_even :: "rat \<Rightarrow> int" where
  "round_half_even q = (let f = \<lfloor>q\<rfloor>; d = q - of_int f in
     if d < 1 / 2 then f
     else if 1 / 2 < d then f + 1
     else if even f then f else f + 1)"

definition pow10 :: "int \<Rightarrow> rat" where
  "pow10 k = (if 0 \<le> k then 10 ^ nat k else 1 / 10 ^ nat (- k))"

definition sig6 :: "rat \<Rightarrow> rat" where
  "sig6 q = (if q = 0 then 0
     else let s = pow10 (5 - decexp q) in of_int (round_half_even (q * s)) / s)"

text \<open>\<^verbatim>\<open>%d\<close> of a number drops its fractional part (towards zero).\<close>

definition trunc0 :: "rat \<Rightarrow> int" where
  "trunc0 q = (if 0 \<le> q then \<lfloor>q\<rfloor> else \<lceil>q\<rceil>)"

text \<open>
  \<^verbatim>\<open>float(s)\<close> on text: a rendered number denotes itself; characters are read as a
  decimal literal, an optional sign, digits, and an optional point with more digits (at
  least one digit in all). Python raises \<^verbatim>\<open>ValueError\<close> for text that is no number, here
  \<open>None\<close>. Exponents, blanks and underscores, which Python also reads, are not part of
  the model and no statement below depends on them.
\<close>

definition digit_of :: "char \<Rightarrow> nat option" where
  "digit_of c = (let n = (of_char c :: nat) in
     if 48 \<le> n \<and> n \<le> 57 then Some (n - 48) else None)"

fun digits_val :: "string \<Rightarrow> nat \<Rightarrow> nat option" where
  "digits_val [] acc = Some acc"
| "digits_val (c # cs) acc =
     (case digit_of c of None \<Rightarrow> None | Some d \<Rightarrow> digits_val cs (10 * acc + d))"

definition unsigned_decimal :: "string \<Rightarrow> rat option" where
  "unsigned_decimal s =
     (let ip = takeWhile (\<lambda>c. c \<noteq> CHR ''.'') s;
          fp = drop 1 (dropWhile (\<lambda>c. c \<noteq> CHR ''.'') s)
      in if ip = [] \<and> fp = [] then None
         else case (digits_val ip 0, digits_val fp 0) of
                (Some a, Some b) \<Rightarrow> Some (of_nat a + of_nat b / 10 ^ length fp)
              | _ \<Rightarrow> None)"

definition float_str :: "string \<Rightarrow> rat option" where
  "float_str s =
     (if s \<noteq> [] \<and> hd s = CHR ''-'' then map_option uminus (unsigned_decimal (tl s))
      else if s \<noteq> [] \<and> hd s = CHR ''+'' then unsigned_decimal (tl s)
      else unsigned_decimal s)"

definition float_text :: "wire \<Rightarrow> rat option" where
  "float_text t =
     (case t of
        [Num q] \<Rightarrow> Some q
      | _ \<Rightarrow> (case chars t of None \<Rightarrow> None | Some s \<Rightarrow> float_str s))"

text \<open>\<^verbatim>\<open>s.replace('"', "")\<close> removes every double quote.\<close>

definition replace_dquote :: "wire \<Rightarrow> wire" where
  "replace_dquote t = filter (\<lambda>x. x \<noteq> Ch dquote) t"

text \<open>\<^verbatim>\<open>s.split(",")\<close>: the pieces between the separators, one piece for text without one.\<close>

fun split_on :: "'a \<Rightarrow> 'a list \<Rightarrow> 'a list list" where
  "split_on d [] = [[]]"
| "split_on d (x # xs) =
     (if x = d then [] # split_on d xs
      else (case split_on d xs of [] \<Rightarrow> [[x]] | p # ps \<Rightarrow> (x # p) # ps))"

text \<open>
  \<^verbatim>\<open>fmt % args\<close>: every \<^verbatim>\<open>%c\<close> of the format consumes one argument and is replaced by
  its conversion; all other characters are copied. Too few or too many arguments, or a
  conversion that does not fit the argument, raise \<^verbatim>\<open>TypeError\<close> (here \<open>None\<close>).
\<close>

datatype pyarg = Number rat | Str string

fun conv :: "char \<Rightarrow> pyarg \<Rightarrow> wire option" where
  "conv c (Number q) =
     (if c = CHR ''g'' then Some [Num (sig6 q)]
      else if c = CHR ''d'' then Some [Num (of_int (trunc0 q))]
      else if c = CHR ''s'' then Some [Num q]
      else None)"
| "conv c (Str s) = (if c = CHR ''s'' then Some (lit s) else None)"

fun percent :: "string \<Rightarrow> pyarg list \<Rightarrow> wire option" where
  "percent [] [] = Some []"
| "percent [] (a # as) = None"
| "percent [c] as = (if c = CHR ''%'' then None else if as = [] then Some [Ch c] else None)"
| "percent (c # d # cs) as =
     (if c = CHR ''%'' then
        (case as of
           [] \<Rightarrow> None
         | a # as' \<Rightarrow>
            (case conv d a of
               None \<Rightarrow> None
             | Some t \<Rightarrow> map_option ((@) t) (percent cs as')))
      else map_option ((#) (Ch c)) (percent (d # cs) as))"

subsection \<open>The instrument at the other end of the transport\<close>

text \<open>
  Modelled from the spec: the physical instrument and the transport collaborator are not
  part of the source. The spec describes the instrument as a register holding the active
  output (three states, changed only by a selection write, never by a query), with every
  setpoint write and every setpoint or measurement read applying to the active output.
  The model keeps, per output, the text of the last setpoint written and the text of the
  present readings, and answers a query with the stored text. Commands it does not know
  leave it unchanged and are answered with empty text. The transport itself never fails
  here: time-outs and disconnects are outside the model.
\<close>

datatype channel = P6V | P25V | N25V

fun token :: "channel \<Rightarrow> string" where
  "token P6V = ''P6V''"
| "token P25V = ''P25V''"
| "token N25V = ''N25V''"

definition output_of_token :: "string \<Rightarrow> channel option" where
  "output_of_token s =
     (if s = ''P6V'' then Some P6V
      else if s = ''P25V'' then Some P25V
      else if s = ''N25V'' then Some N25V
      else None)"

record device =
  selected :: channel
  output_state :: wire
  volt_setpoint :: "channel \<Rightarrow> wire"
  curr_limit :: "channel \<Rightarrow> wire"
  volt_reading :: "channel \<Rightarrow> wire"
  curr_reading :: "channel \<Rightarrow> wire"
  scpi_version :: wire

fun strip_prefix :: "'a list \<Rightarrow> 'a list \<Rightarrow> 'a list option" where
  "strip_prefix [] ys = Some ys"
| "strip_prefix (x # xs) [] = None"
| "strip_prefix (x # xs) (y # ys) = (if x = y then strip_prefix xs ys else None)"

definition dev_write :: "wire \<Rightarrow> device \<Rightarrow> device" where
  "dev_write cmd d =
     (case strip_prefix (lit ''INST:SEL '') cmd of
        Some a \<Rightarrow>
          (case chars a of
             None \<Rightarrow> d
           | Some s \<Rightarrow> (case output_of_token s of None \<Rightarrow> d | Some c \<Rightarrow> d\<lparr>selected := c\<rparr>))
      | None \<Rightarrow>
     (case strip_prefix (lit '':SOUR:VOLT '') cmd of
        Some a \<Rightarrow> d\<lparr>volt_setpoint := (volt_setpoint d)(selected d := a)\<rparr>
      | None \<Rightarrow>
     (case strip_prefix (lit '':SOUR:CURR '') cmd of
        Some a \<Rightarrow> d\<lparr>curr_limit := (curr_limit d)(selected d := a)\<rparr>
      | None \<Rightarrow>
     (case strip_prefix (lit '':APPly '') cmd of
        Some a \<Rightarrow>
          (case split_on (Ch CHR '','') a of
             [v, c] \<Rightarrow> d\<lparr>volt_setpoint := (volt_setpoint d)(selected d := v),
                           curr_limit := (curr_limit d)(selected d := c)\<rparr>
           | _ \<Rightarrow> d)
      | None \<Rightarrow>
     (case strip_prefix (lit ''OUTPut '') cmd of
        Some a \<Rightarrow> d\<lparr>output_state := a\<rparr>
      | None \<Rightarrow> d)))))"

definition dev_reply :: "wire \<Rightarrow> device \<Rightarrow> wire" where
  "dev_reply cmd d =
     (if cmd = lit ''INST:SEL?'' then lit (token (selected d))
      else if cmd = lit '':SOUR:VOLT?'' then volt_setpoint d (selected d)
      else if cmd = lit '':SOUR:CURR?'' then curr_limit d (selected d)
      else if cmd = lit '':MEAS:VOLT?'' then volt_reading d (selected d)
      else if cmd = lit '':MEAS:CURR?'' then curr_reading d (selected d)
      else if cmd = lit '':APPly?'' then
        [Ch dquote] @ volt_setpoint d (selected d) @ [Ch dquote, Ch CHR '','', Ch dquote]
          @ curr_limit d (selected d) @ [Ch dquote]
      else if cmd = lit ''OUTPut?'' then output_state d
      else if cmd = lit ''SYST:VERS?'' then scpi_version d
      else [])"

subsection \<open>The driver object and its transport primitives\<close>

text \<open>
  The state of an \<^verbatim>\<open>HPE3631A\<close> object: the two instance attributes the methods assign
  (\<^verbatim>\<open>voltage_setpoint_values\<close>, \<^verbatim>\<open>current_limit_values\<close>, \<open>None\<close> as in Python), the
  instrument it talks to, and the trace of what it did on the transport, oldest first.
\<close>

datatype event = Write wire | Query wire | Sleep rat

record HPE3631A =
  voltage_setpoint_values :: "(rat \<times> rat) option"
  current_limit_values :: "(rat \<times> rat) option"
  instrument :: device
  trace :: "event list"

type_synonym 'a action = "HPE3631A \<Rightarrow> (error + 'a) \<times> HPE3631A"

text \<open>
  The class attributes give the two dynamic properties their default ranges,
  \<^verbatim>\<open>values=(0, 6.18)\<close> and \<^verbatim>\<open>values=(0, 5.15)\<close>; a new object has done nothing yet.
\<close>

definition init :: "device \<Rightarrow> HPE3631A" where
  "init d = \<lparr>voltage_setpoint_values = Some (0, 6.18),
             current_limit_values = Some (0, 5.15),
             instrument = d, trace = []\<rparr>"

text \<open>
  Modelled from the spec: \<^verbatim>\<open>Instrument.write\<close> and \<^verbatim>\<open>Instrument.ask\<close> are inherited from
  a base class that is not in the source. The spec gives the transport a blocking
  \<^verbatim>\<open>write(command_string)\<close> and a blocking \<^verbatim>\<open>query(command_string) -> response_string\<close>.
\<close>

definition transport_write :: "wire \<Rightarrow> unit action" where
  "transport_write cmd st =
     (Inr (), st\<lparr>instrument := dev_write cmd (instrument st), trace := trace st @ [Write cmd]\<rparr>)"

definition transport_ask :: "wire \<Rightarrow> wire action" where
  "transport_ask cmd st =
     (Inr (dev_reply cmd (instrument st)), st\<lparr>trace := trace st @ [Query cmd]\<rparr>)"

text \<open>\<^verbatim>\<open>time.sleep(seconds)\<close> only lets time pass; the trace records for how long.\<close>

definition sleep :: "rat \<Rightarrow> HPE3631A \<Rightarrow> HPE3631A" where
  "sleep seconds st = st\<lparr>trace := trace st @ [Sleep seconds]\<rparr>"

text \<open>The number of transport operations (writes and queries) in a trace.\<close>

fun is_transport :: "event \<Rightarrow> bool" where
  "is_transport (Write c) = True"
| "is_transport (Query c) = True"
| "is_transport (Sleep s) = False"

definition round_trips :: "event list \<Rightarrow> nat" where
  "round_trips evs = length (filter is_transport evs)"

subsection \<open>Validators and the property mechanism\<close>

text \<open>
  Modelled from the spec: \<^verbatim>\<open>truncated_range\<close> and \<^verbatim>\<open>strict_discrete_set\<close> are imported
  from \<^verbatim>\<open>pymeasure.instruments.validators\<close>, which is not in the source. The spec's
  property table says of the first "numeric, truncated to configurable [min,max]", and
  of the second "validated against the fixed enumeration", failing with
  \<^verbatim>\<open>ValidationError\<close>.
\<close>

definition truncated_range :: "rat \<Rightarrow> rat \<times> rat \<Rightarrow> rat" where
  "truncated_range v vs =
     (let lo = min (fst vs) (snd vs); hi = max (fst vs) (snd vs)
      in if lo \<le> v \<and> v \<le> hi then v else if hi < v then hi else lo)"

definition strict_discrete_set :: "'a \<Rightarrow> 'a list \<Rightarrow> error + 'a" where
  "strict_discrete_set v vs = (if v \<in> set vs then Inr v else Inl ValidationError)"

text \<open>
  Modelled from the spec: \<^verbatim>\<open>Instrument.control\<close> and \<^verbatim>\<open>Instrument.measurement\<close> are not
  in the source. By the spec's contract a set validates (and maps) its input, then
  formats the write command with it and issues it; a get issues the query and returns
  the response processed by the property's rule. \<open>control_set\<close> receives the outcome of
  validation, \<open>control_get\<close> the processing rule.
\<close>

definition control_set :: "string \<Rightarrow> error + pyarg list \<Rightarrow> unit action" where
  "control_set set_command validated st =
     (case validated of
        Inl e \<Rightarrow> (Inl e, st)
      | Inr args \<Rightarrow>
          (case percent set_command args of
             None \<Rightarrow> (Inl TypeError, st)
           | Some cmd \<Rightarrow> transport_write cmd st))"

definition control_get :: "string \<Rightarrow> (wire \<Rightarrow> error + 'a) \<Rightarrow> 'a action" where
  "control_get get_command process st =
     (case transport_ask (lit get_command) st of
        (Inl e, st') \<Rightarrow> (Inl e, st')
      | (Inr r, st') \<Rightarrow> (process r, st'))"

text \<open>A response that should be one number; anything else is a malformed response.\<close>

definition number :: "wire \<Rightarrow> error + rat" where
  "number r = (case float_text r of None \<Rightarrow> Inl TransportError | Some q \<Rightarrow> Inr q)"

text \<open>
  A dynamic property validates against the range held by the object at the time of the
  assignment; with no range (\<open>None\<close>) taking its minimum raises \<^verbatim>\<open>TypeError\<close>.
\<close>

definition in_range :: "rat \<Rightarrow> (rat \<times> rat) option \<Rightarrow> error + pyarg list" where
  "in_range v vs =
     (case vs of None \<Rightarrow> Inl TypeError | Some r \<Rightarrow> Inr [Number (truncated_range v r)])"

text \<open>
  A property declared with \<^verbatim>\<open>map_values=True\<close> and a dictionary sends the dictionary's
  value for a key and returns the key for a received value.
\<close>

definition map_value :: "('k \<times> 'v) list \<Rightarrow> 'k \<Rightarrow> error + 'v" where
  "map_value table k =
     (case strict_discrete_set k (map fst table) of
        Inl e \<Rightarrow> Inl e
      | Inr k' \<Rightarrow> (case map_of table k' of None \<Rightarrow> Inl ValidationError | Some v \<Rightarrow> Inr v))"

definition unmap_value :: "('k \<times> 'v) list \<Rightarrow> 'v \<Rightarrow> error + 'k" where
  "unmap_value table v =
     (case map_of (map (\<lambda>(k, v'). (v', k)) table) v of
        None \<Rightarrow> Inl TransportError
      | Some k \<Rightarrow> Inr k)"

subsection \<open>The properties of the class\<close>

text \<open>\<^verbatim>\<open>vers = Instrument.measurement("SYST:VERS?", ...)\<close>\<close>

definition vers_get :: "wire action" where
  "vers_get = control_get ''SYST:VERS?'' Inr"

text \<open>
  \<^verbatim>\<open>set_output_on = Instrument.control("OUTPut?", "OUTPut %d", ...,
  validator=strict_discrete_set, values={True: 1, False: 0}, map_values=True)\<close>
\<close>

definition output_on_values :: "(bool \<times> int) list" where
  "output_on_values = [(True, 1), (False, 0)]"

definition set_output_on_set :: "bool \<Rightarrow> unit action" where
  "set_output_on_set v =
     control_set ''OUTPut %d''
       (case map_value output_on_values v of
          Inl e \<Rightarrow> Inl e
        | Inr n \<Rightarrow> Inr [Number (of_int n)])"

definition set_output_on_get :: "bool action" where
  "set_output_on_get =
     control_get ''OUTPut?''
       (\<lambda>r. case number r of
               Inl e \<Rightarrow> Inl e
             | Inr q \<Rightarrow> unmap_value (map (\<lambda>(k, n). (k, of_int n)) output_on_values) q)"

text \<open>
  \<^verbatim>\<open>voltage_setpoint = Instrument.control(":SOUR:VOLT?", ":SOUR:VOLT %g", ...,
  validator=truncated_range, values=(0, 6.18), dynamic=True)\<close>
\<close>

definition voltage_setpoint_set :: "rat \<Rightarrow> unit action" where
  "voltage_setpoint_set v st =
     control_set '':SOUR:VOLT %g'' (in_range v (voltage_setpoint_values st)) st"

definition voltage_setpoint_get :: "rat action" where
  "voltage_setpoint_get = control_get '':SOUR:VOLT?'' number"

text \<open>
  \<^verbatim>\<open>current_limit = Instrument.control(":SOUR:CURR?", ":SOUR:CURR %g", ...,
  validator=truncated_range, values=(0, 5.15), dynamic=True)\<close>
\<close>

definition current_limit_set :: "rat \<Rightarrow> unit action" where
  "current_limit_set v st =
     control_set '':SOUR:CURR %g'' (in_range v (current_limit_values st)) st"

definition current_limit_get :: "rat action" where
  "current_limit_get = control_get '':SOUR:CURR?'' number"

text \<open>
  \<^verbatim>\<open>voltage = Instrument.measurement(":MEAS:VOLT?", ...)\<close> and
  \<^verbatim>\<open>current = Instrument.measurement(":MEAS:CURR?", ...)\<close>
\<close>

definition voltage_get :: "rat action" where
  "voltage_get = control_get '':MEAS:VOLT?'' number"

definition current_get :: "rat action" where
  "current_get = control_get '':MEAS:CURR?'' number"

text \<open>
  \<^verbatim>\<open>applied = Instrument.control(":APPly?", ":APPly %g,%g", ...,
  get_process=lambda y: (float(y[0].replace('"', "")), float(y[1].replace('"', ""))))\<close>

  The response reaches \<^verbatim>\<open>get_process\<close> split at its commas, every piece as text. The
  lambda reads the first two pieces; a response with fewer is malformed, and a piece
  that is no number once its quotes are removed makes \<^verbatim>\<open>float\<close> raise \<^verbatim>\<open>ValueError\<close>.
\<close>

definition applied_get_process :: "wire list \<Rightarrow> error + rat \<times> rat" where
  "applied_get_process y =
     (case y of
        y0 # y1 # rest \<Rightarrow>
          (case float_text (replace_dquote y0) of
             None \<Rightarrow> Inl ValueError
           | Some a \<Rightarrow>
               (case float_text (replace_dquote y1) of
                  None \<Rightarrow> Inl ValueError
                | Some b \<Rightarrow> Inr (a, b)))
      | _ \<Rightarrow> Inl TransportError)"

definition applied_get :: "(rat \<times> rat) action" where
  "applied_get = control_get '':APPly?'' (\<lambda>r. applied_get_process (split_on (Ch CHR '','') r))"

definition applied_set :: "rat \<times> rat \<Rightarrow> unit action" where
  "applied_set vc = control_set '':APPly %g,%g'' (Inr [Number (fst vc), Number (snd vc)])"

text \<open>
  The three class-level tables and
  \<^verbatim>\<open>select_output = Instrument.control("INST:SEL?", "INST:SEL %s", ...,
  validator=strict_discrete_set, values=_output_ch, map_values=True)\<close>
\<close>

definition output_ch :: "(int \<times> string) list" where
  "output_ch = [(0, ''P6V''), (1, ''P25V''), (2, ''N25V'')]"

definition voltage_range :: "(int \<times> (rat \<times> rat)) list" where
  "voltage_range = [(0, (0, 6.18)), (1, (0, 25.75)), (2, (- 25.75, 0))]"

definition current_range :: "(int \<times> (rat \<times> rat)) list" where
  "current_range = [(0, (0, 5.15)), (1, (0, 1.03)), (2, (0, 1.03))]"

definition select_output_set :: "int \<Rightarrow> unit action" where
  "select_output_set v =
     control_set ''INST:SEL %s''
       (case map_value output_ch v of Inl e \<Rightarrow> Inl e | Inr tok \<Rightarrow> Inr [Str tok])"

definition select_output_process :: "wire \<Rightarrow> error + int" where
  "select_output_process r =
     (case chars r of None \<Rightarrow> Inl TransportError | Some s \<Rightarrow> unmap_value output_ch s)"

definition select_output_get :: "int action" where
  "select_output_get = control_get ''INST:SEL?'' select_output_process"

subsection \<open>The methods of the class\<close>

text \<open>\<^verbatim>\<open>range(n)\<close> holds the integers from 0 up to, not including, \<open>n\<close>.\<close>

definition py_range :: "nat \<Rightarrow> int list" where
  "py_range n = map int [0..<n]"

definition set_remote :: "bool \<Rightarrow> unit action" where
  "set_remote lock_local_key =
     (if lock_local_key then transport_write (lit ''SYST:RWL'')
      else transport_write (lit ''SYST:REM''))"

definition set_local :: "unit action" where
  "set_local = transport_write (lit ''SYST:LOC'')"

definition set_current :: "rat \<Rightarrow> int \<Rightarrow> unit action" where
  "set_current v select st =
     (if select \<notin> set (py_range (length output_ch)) then (Inl NotImplementedError, st)
      else
        (case select_output_set select st of
           (Inl e, st1) \<Rightarrow> (Inl e, st1)
         | (Inr u, st1) \<Rightarrow>
             current_limit_set v (st1\<lparr>current_limit_values := map_of current_range select\<rparr>)))"

definition set_voltage :: "rat \<Rightarrow> int \<Rightarrow> unit action" where
  "set_voltage v select st =
     (if select \<notin> set (py_range (length output_ch)) then (Inl NotImplementedError, st)
      else
        (case select_output_set select st of
           (Inl e, st1) \<Rightarrow> (Inl e, st1)
         | (Inr u, st1) \<Rightarrow>
             voltage_setpoint_set v (st1\<lparr>voltage_setpoint_values := map_of voltage_range select\<rparr>)))"

definition meas_current :: "int \<Rightarrow> rat action" where
  "meas_current select st =
     (if select \<notin> set (py_range (length output_ch)) then (Inl NotImplementedError, st)
      else
        (case select_output_get st of
           (Inl e, st1) \<Rightarrow> (Inl e, st1)
         | (Inr active, st1) \<Rightarrow>
             if active = select then current_get st1
             else
               (case select_output_set select st1 of
                  (Inl e, st2) \<Rightarrow> (Inl e, st2)
                | (Inr u, st2) \<Rightarrow> current_get (sleep 0.2 st2))))"

definition meas_voltage :: "int \<Rightarrow> rat action" where
  "meas_voltage select st =
     (if select \<notin> set (py_range (length output_ch)) then (Inl NotImplementedError, st)
      else
        (case select_output_get st of
           (Inl e, st1) \<Rightarrow> (Inl e, st1)
         | (Inr active, st1) \<Rightarrow>
             if active = select then voltage_get st1
             else
               (case select_output_set select st1 of
                  (Inl e, st2) \<Rightarrow> (Inl e, st2)
                | (Inr u, st2) \<Rightarrow> voltage_get (sleep 0.2 st2))))"

subsection \<open>Vocabulary for the statements\<close>

text \<open>
  The instrument's channel for an index of the driver, through the table \<open>output_ch\<close>,
  and the index under which the driver reports a channel of the instrument.
\<close>

definition channel_of :: "int \<Rightarrow> channel option" where
  "channel_of k = (case map_of output_ch k of None \<Rightarrow> None | Some tok \<Rightarrow> output_of_token tok)"

definition index_of :: "channel \<Rightarrow> int" where
  "index_of c = (case c of P6V \<Rightarrow> 0 | P25V \<Rightarrow> 1 | N25V \<Rightarrow> 2)"

text \<open>
  A caller's use of an object over time is a list of calls, each run on the state the
  previous one left (a caller that catches an exception goes on with the object as the
  raise left it). \<open>Assign\<close> and \<open>Read\<close> calls are direct uses of a property.
\<close>

datatype call =
    Set_current rat int
  | Set_voltage rat int
  | Meas_current int
  | Meas_voltage int
  | Set_remote bool
  | Set_local
  | Assign_set_output_on bool
  | Assign_voltage_setpoint rat
  | Assign_current_limit rat
  | Assign_applied "rat \<times> rat"
  | Assign_select_output int
  | Read_vers
  | Read_set_output_on
  | Read_voltage_setpoint
  | Read_current_limit
  | Read_voltage
  | Read_current
  | Read_applied
  | Read_select_output

fun exec :: "call \<Rightarrow> HPE3631A \<Rightarrow> HPE3631A" where
  "exec (Set_current v k) st = snd (set_current v k st)"
| "exec (Set_voltage v k) st = snd (set_voltage v k st)"
| "exec (Meas_current k) st = snd (meas_current k st)"
| "exec (Meas_voltage k) st = snd (meas_voltage k st)"
| "exec (Set_remote b) st = snd (set_remote b st)"
| "exec Set_local st = snd (set_local st)"
| "exec (Assign_set_output_on b) st = snd (set_output_on_set b st)"
| "exec (Assign_voltage_setpoint v) st = snd (voltage_setpoint_set v st)"
| "exec (Assign_current_limit v) st = snd (current_limit_set v st)"
| "exec (Assign_applied vc) st = snd (applied_set vc st)"
| "exec (Assign_select_output k) st = snd (select_output_set k st)"
| "exec Read_vers st = snd (vers_get st)"
| "exec Read_set_output_on st = snd (set_output_on_get st)"
| "exec Read_voltage_setpoint st = snd (voltage_setpoint_get st)"
| "exec Read_current_limit st = snd (current_limit_get st)"
| "exec Read_voltage st = snd (voltage_get st)"
| "exec Read_current st = snd (current_get st)"
| "exec Read_applied st = snd (applied_get st)"
| "exec Read_select_output st = snd (select_output_get st)"

fun run :: "call list \<Rightarrow> HPE3631A \<Rightarrow> HPE3631A" where
  "run [] st = st"
| "run (c # cs) st = run cs (exec c st)"

fun is_set_current :: "call \<Rightarrow> bool" where
  "is_set_current (Set_current v k) = True"
| "is_set_current c = False"

fun is_set_voltage :: "call \<Rightarrow> bool" where
  "is_set_voltage (Set_voltage v k) = True"
| "is_set_voltage c = False"

subsection \<open>A concrete bench\<close>

text \<open>
  An instrument used to run the operations on concrete inputs: the +6V output is
  selected, every setpoint is \<^verbatim>\<open>0\<close>, and the three outputs read the voltages and currents
  given below.
\<close>

definition bench_device :: device where
  "bench_device =
     \<lparr>selected = P6V,
      output_state = lit ''0'',
      volt_setpoint = (\<lambda>c. lit ''0''),
      curr_limit = (\<lambda>c. lit ''0''),
      volt_reading = (\<lambda>c. case c of P6V \<Rightarrow> lit ''5.000'' | P25V \<Rightarrow> lit ''12.000'' | N25V \<Rightarrow> lit ''-12.000''),
      curr_reading = (\<lambda>c. case c of P6V \<Rightarrow> lit ''0.500'' | P25V \<Rightarrow> lit ''0.100'' | N25V \<Rightarrow> lit ''0.200''),
      scpi_version = lit ''1995.0''\<rparr>"

definition bench :: HPE3631A where
  "bench = init bench_device"

section \<open>Basic facts on the model\<close>

subsection \<open>Text, tables and evaluation\<close>


lemma chars_lit [simp]: "chars (lit s) = Some s"
  by (induction s) (simp_all add: lit_def)

lemma strip_prefix_append [simp]: "strip_prefix p (p @ r) = Some r"
  by (induction p) simp_all

lemma py_range_output_ch: "set (py_range (length output_ch)) = {0, 1, 2}"
  by (auto simp add: py_range_def output_ch_def)

lemma select_output_set_0:
  "select_output_set 0 st = (Inr (), st\<lparr>instrument := (instrument st)\<lparr>selected := P6V\<rparr>,
      trace := trace st @ [Write (lit ''INST:SEL P6V'')]\<rparr>)"
  by (simp add: select_output_set_def control_set_def map_value_def strict_discrete_set_def
      output_ch_def transport_write_def dev_write_def lit_def output_of_token_def)

lemma select_output_set_1:
  "select_output_set 1 st = (Inr (), st\<lparr>instrument := (instrument st)\<lparr>selected := P25V\<rparr>,
      trace := trace st @ [Write (lit ''INST:SEL P25V'')]\<rparr>)"
  by (simp add: select_output_set_def control_set_def map_value_def strict_discrete_set_def
      output_ch_def transport_write_def dev_write_def lit_def output_of_token_def)

lemma select_output_set_2:
  "select_output_set 2 st = (Inr (), st\<lparr>instrument := (instrument st)\<lparr>selected := N25V\<rparr>,
      trace := trace st @ [Write (lit ''INST:SEL N25V'')]\<rparr>)"
  by (simp add: select_output_set_def control_set_def map_value_def strict_discrete_set_def
      output_ch_def transport_write_def dev_write_def lit_def output_of_token_def)

lemma select_output_set_invalid:
  "k \<notin> {0, 1, 2} \<Longrightarrow> select_output_set k st = (Inl ValidationError, st)"
  by (simp add: select_output_set_def control_set_def map_value_def strict_discrete_set_def
      output_ch_def)

lemma voltage_setpoint_set_eff:
  "voltage_setpoint_values st = Some r \<Longrightarrow>
   voltage_setpoint_set v st =
     (Inr (), st\<lparr>instrument := (instrument st)\<lparr>volt_setpoint :=
          (volt_setpoint (instrument st))(selected (instrument st) := [Num (sig6 (truncated_range v r))])\<rparr>,
        trace := trace st @ [Write (lit '':SOUR:VOLT '' @ [Num (sig6 (truncated_range v r))])]\<rparr>)"
  by (simp add: voltage_setpoint_set_def control_set_def in_range_def
      transport_write_def dev_write_def lit_def)

lemma current_limit_set_eff:
  "current_limit_values st = Some r \<Longrightarrow>
   current_limit_set v st =
     (Inr (), st\<lparr>instrument := (instrument st)\<lparr>curr_limit :=
          (curr_limit (instrument st))(selected (instrument st) := [Num (sig6 (truncated_range v r))])\<rparr>,
        trace := trace st @ [Write (lit '':SOUR:CURR '' @ [Num (sig6 (truncated_range v r))])]\<rparr>)"
  by (simp add: current_limit_set_def control_set_def in_range_def
      transport_write_def dev_write_def lit_def)

lemma select_output_get_eff:
  "select_output_get st =
     (Inr (index_of (selected (instrument st))), st\<lparr>trace := trace st @ [Query (lit ''INST:SEL?'')]\<rparr>)"
  by (cases "selected (instrument st)")
     (simp_all add: select_output_get_def control_get_def transport_ask_def dev_reply_def
      select_output_process_def unmap_value_def output_ch_def index_of_def)

lemma current_get_eff:
  "current_get st =
     (number (curr_reading (instrument st) (selected (instrument st))),
      st\<lparr>trace := trace st @ [Query (lit '':MEAS:CURR?'')]\<rparr>)"
  by (simp add: current_get_def control_get_def transport_ask_def dev_reply_def lit_def)

lemma voltage_get_eff:
  "voltage_get st =
     (number (volt_reading (instrument st) (selected (instrument st))),
      st\<lparr>trace := trace st @ [Query (lit '':MEAS:VOLT?'')]\<rparr>)"
  by (simp add: voltage_get_def control_get_def transport_ask_def dev_reply_def lit_def)


lemma channel_of_cases:
  "channel_of k = Some c \<longleftrightarrow> (k = 0 \<and> c = P6V) \<or> (k = 1 \<and> c = P25V) \<or> (k = 2 \<and> c = N25V)"
  by (auto simp add: channel_of_def output_ch_def output_of_token_def split: if_splits)

lemma index_of_channel_of: "channel_of k = Some c \<Longrightarrow> index_of c = k"
  by (auto simp add: channel_of_cases index_of_def)

lemma channel_of_index_of: "channel_of (index_of c) = Some c"
  by (cases c) (simp_all add: channel_of_cases index_of_def)

lemma valid_channel_of: "k \<in> {0, 1, 2} \<longleftrightarrow> (\<exists>c. channel_of k = Some c)"
  by (auto simp add: channel_of_cases)

lemma select_output_set_valid:
  "channel_of k = Some c \<Longrightarrow>
   select_output_set k st =
     (Inr (), st\<lparr>instrument := (instrument st)\<lparr>selected := c\<rparr>,
        trace := trace st @ [Write (lit ''INST:SEL '' @ lit (token c))]\<rparr>)"
  by (auto simp add: channel_of_cases select_output_set_0 select_output_set_1
      select_output_set_2 lit_def)

lemma tables_at_0:
  "channel_of 0 = Some P6V" "map_of voltage_range 0 = Some (0, 6.18)"
  "map_of current_range 0 = Some (0, 5.15)"
  by (simp_all add: channel_of_cases voltage_range_def current_range_def)

lemma tables_at_1:
  "channel_of 1 = Some P25V" "map_of voltage_range 1 = Some (0, 25.75)"
  "map_of current_range 1 = Some (0, 1.03)"
  by (simp_all add: channel_of_cases voltage_range_def current_range_def)

lemma tables_at_2:
  "channel_of 2 = Some N25V" "map_of voltage_range 2 = Some (- 25.75, 0)"
  "map_of current_range 2 = Some (0, 1.03)"
  by (simp_all add: channel_of_cases voltage_range_def current_range_def)

lemma ranges_defined:
  assumes "select \<in> {0, 1, 2}"
  shows "\<exists>c vr cr. channel_of select = Some c \<and> map_of voltage_range select = Some vr \<and>
     map_of current_range select = Some cr"
proof -
  consider "select = 0" | "select = 1" | "select = 2"
    using assms by auto
  then show ?thesis
  proof cases
    case 1
    then show ?thesis using tables_at_0 by blast
  next
    case 2
    then show ?thesis using tables_at_1 by blast
  next
    case 3
    then show ?thesis using tables_at_2 by blast
  qed
qed

lemma sig6_values:
  "sig6 0 = 0" "sig6 3 = 3" "sig6 6.18 = 6.18" "sig6 (- 12) = - 12"
  "sig6 1.2345678 = 1.23457"
  by code_simp+

subsection \<open>What the two setpoint methods do on a valid channel\<close>


lemma set_voltage_eff:
  assumes "channel_of select = Some c" and "map_of voltage_range select = Some r"
  shows "set_voltage v select st =
     (Inr (), st\<lparr>voltage_setpoint_values := Some r,
        instrument := (instrument st)\<lparr>selected := c,
          volt_setpoint := (volt_setpoint (instrument st))(c := [Num (sig6 (truncated_range v r))])\<rparr>,
        trace := trace st @ [Write (lit ''INST:SEL '' @ lit (token c)),
                             Write (lit '':SOUR:VOLT '' @ [Num (sig6 (truncated_range v r))])]\<rparr>)"
proof -
  from assms(1) have "select \<in> {0, 1, 2}" by (auto simp add: channel_of_cases)
  then show ?thesis
    using assms
    by (simp add: set_voltage_def py_range_output_ch select_output_set_valid
        voltage_setpoint_set_eff)
qed

lemma set_current_eff:
  assumes "channel_of select = Some c" and "map_of current_range select = Some r"
  shows "set_current v select st =
     (Inr (), st\<lparr>current_limit_values := Some r,
        instrument := (instrument st)\<lparr>selected := c,
          curr_limit := (curr_limit (instrument st))(c := [Num (sig6 (truncated_range v r))])\<rparr>,
        trace := trace st @ [Write (lit ''INST:SEL '' @ lit (token c)),
                             Write (lit '':SOUR:CURR '' @ [Num (sig6 (truncated_range v r))])]\<rparr>)"
proof -
  from assms(1) have "select \<in> {0, 1, 2}" by (auto simp add: channel_of_cases)
  then show ?thesis
    using assms
    by (simp add: set_current_def py_range_output_ch select_output_set_valid
        current_limit_set_eff)
qed

section \<open>The claims\<close>

subsection \<open>C1: a channel outside the table\<close>

text \<open>
  C1, as the spec has it: for a channel index outside \<open>{0, 1, 2}\<close> each of the four
  channel-scoped methods raises \<^verbatim>\<open>InvalidChannelError\<close>, before any transport command and
  with the state unchanged. The methods raise \<^verbatim>\<open>NotImplementedError\<close> instead; at
  channel 3 and channel -1 the result is not \<^verbatim>\<open>InvalidChannelError\<close>.
\<close>


theorem invalid_channel_error_counterexample:
  "fst (set_current 1 3 bench) \<noteq> Inl InvalidChannelError \<and>
   fst (set_voltage 1 3 bench) \<noteq> Inl InvalidChannelError \<and>
   fst (meas_current (- 1) bench) \<noteq> Inl InvalidChannelError \<and>
   fst (meas_voltage (- 1) bench) \<noteq> Inl InvalidChannelError"
  by (simp add: set_current_def set_voltage_def meas_current_def meas_voltage_def
      py_range_output_ch)

text \<open>
  C1, amended: for every channel index outside \<open>{0, 1, 2}\<close>, \<^verbatim>\<open>set_current\<close>,
  \<^verbatim>\<open>set_voltage\<close>, \<^verbatim>\<open>meas_current\<close> and \<^verbatim>\<open>meas_voltage\<close> raise
  \<^verbatim>\<open>NotImplementedError\<close> and return the object exactly as it was: nothing was sent, no
  range was changed, the instrument is untouched.
\<close>


theorem invalid_channel_raises_not_implemented:
  "select \<notin> {0, 1, 2} \<Longrightarrow>
   set_current v select st = (Inl NotImplementedError, st) \<and>
   set_voltage v select st = (Inl NotImplementedError, st) \<and>
   meas_current select st = (Inl NotImplementedError, st) \<and>
   meas_voltage select st = (Inl NotImplementedError, st)"
  by (simp add: set_current_def set_voltage_def meas_current_def meas_voltage_def
      py_range_output_ch)

theorem invalid_channel_raises_not_implemented_witness:
  "(3::int) \<notin> {0, 1, 2} \<and> (- 1::int) \<notin> {0, 1, 2} \<and>
   set_current 1 3 bench = (Inl NotImplementedError, bench) \<and>
   set_voltage 1 3 bench = (Inl NotImplementedError, bench) \<and>
   meas_current (- 1) bench = (Inl NotImplementedError, bench) \<and>
   meas_voltage (- 1) bench = (Inl NotImplementedError, bench)"
  using invalid_channel_raises_not_implemented [of 3 1 bench]
    invalid_channel_raises_not_implemented [of "- 1" 1 bench]
  by simp

subsection \<open>C2: the sequence of a setpoint method\<close>

text \<open>
  C2: for every channel in \<open>{0, 1, 2}\<close> and every value, \<^verbatim>\<open>set_voltage\<close> and
  \<^verbatim>\<open>set_current\<close> succeed and do exactly this: write the selector for the channel,
  whatever channel was selected before; install the channel's pair from the range table
  as the property's range; write the setpoint, the value having been validated
  (truncated) against that pair. The trace grows by exactly these two writes, in this
  order.
\<close>


theorem set_selects_installs_range_then_writes:
  assumes "select \<in> {0, 1, 2}"
  shows "\<exists>c vr cr.
     channel_of select = Some c \<and>
     map_of voltage_range select = Some vr \<and>
     map_of current_range select = Some cr \<and>
     set_voltage v select st =
       (Inr (), st\<lparr>voltage_setpoint_values := Some vr,
          instrument := (instrument st)\<lparr>selected := c,
            volt_setpoint := (volt_setpoint (instrument st))(c := [Num (sig6 (truncated_range v vr))])\<rparr>,
          trace := trace st @ [Write (lit ''INST:SEL '' @ lit (token c)),
                               Write (lit '':SOUR:VOLT '' @ [Num (sig6 (truncated_range v vr))])]\<rparr>) \<and>
     set_current v select st =
       (Inr (), st\<lparr>current_limit_values := Some cr,
          instrument := (instrument st)\<lparr>selected := c,
            curr_limit := (curr_limit (instrument st))(c := [Num (sig6 (truncated_range v cr))])\<rparr>,
          trace := trace st @ [Write (lit ''INST:SEL '' @ lit (token c)),
                               Write (lit '':SOUR:CURR '' @ [Num (sig6 (truncated_range v cr))])]\<rparr>)"
proof -
  from ranges_defined [OF assms] obtain c vr cr where
    h: "channel_of select = Some c" "map_of voltage_range select = Some vr"
       "map_of current_range select = Some cr"
    by blast
  show ?thesis
    using h set_voltage_eff [OF h(1) h(2)] set_current_eff [OF h(1) h(3)] by blast
qed

theorem set_selects_installs_range_then_writes_witness:
  "(0::int) \<in> {0, 1, 2} \<and>
   selected (instrument bench) = P6V \<and>
   set_voltage 3 0 bench =
     (Inr (), bench\<lparr>voltage_setpoint_values := Some (0, 6.18),
        instrument := (instrument bench)\<lparr>selected := P6V,
          volt_setpoint := (volt_setpoint (instrument bench))(P6V := [Num 3])\<rparr>,
        trace := [Write (lit ''INST:SEL P6V''), Write (lit '':SOUR:VOLT '' @ [Num 3])]\<rparr>) \<and>
   set_current 3 0 bench =
     (Inr (), bench\<lparr>current_limit_values := Some (0, 5.15),
        instrument := (instrument bench)\<lparr>selected := P6V,
          curr_limit := (curr_limit (instrument bench))(P6V := [Num 3])\<rparr>,
        trace := [Write (lit ''INST:SEL P6V''), Write (lit '':SOUR:CURR '' @ [Num 3])]\<rparr>)"
proof -
  have tr: "trace bench = []" and sel: "selected (instrument bench) = P6V"
    by (simp_all add: bench_def init_def bench_device_def)
  from set_selects_installs_range_then_writes [of 0 3 bench] tables_at_0
  show ?thesis
    by (simp add: tr sel truncated_range_def sig6_values lit_def)
qed

subsection \<open>C3 and C4: measuring on a channel\<close>

text \<open>
  What the two measurement methods do, by whether the instrument's active channel is the
  requested one. Both start by reading the selector from the instrument.
\<close>

lemma meas_current_same:
  assumes "index_of (selected (instrument st)) = select"
  shows "meas_current select st =
     (number (curr_reading (instrument st) (selected (instrument st))),
      st\<lparr>trace := trace st @ [Query (lit ''INST:SEL?''), Query (lit '':MEAS:CURR?'')]\<rparr>)"
proof -
  have "select \<in> {0, 1, 2}"
    using assms by (cases "selected (instrument st)") (auto simp add: index_of_def)
  then show ?thesis
    using assms
    by (simp add: meas_current_def py_range_output_ch select_output_get_eff current_get_eff)
qed

lemma meas_voltage_same:
  assumes "index_of (selected (instrument st)) = select"
  shows "meas_voltage select st =
     (number (volt_reading (instrument st) (selected (instrument st))),
      st\<lparr>trace := trace st @ [Query (lit ''INST:SEL?''), Query (lit '':MEAS:VOLT?'')]\<rparr>)"
proof -
  have "select \<in> {0, 1, 2}"
    using assms by (cases "selected (instrument st)") (auto simp add: index_of_def)
  then show ?thesis
    using assms
    by (simp add: meas_voltage_def py_range_output_ch select_output_get_eff voltage_get_eff)
qed

lemma meas_current_other:
  assumes "channel_of select = Some c" and "selected (instrument st) \<noteq> c"
  shows "meas_current select st =
     (number (curr_reading (instrument st) c),
      st\<lparr>instrument := (instrument st)\<lparr>selected := c\<rparr>,
         trace := trace st @ [Query (lit ''INST:SEL?''), Write (lit ''INST:SEL '' @ lit (token c)),
                              Sleep 0.2, Query (lit '':MEAS:CURR?'')]\<rparr>)"
proof -
  have v: "select \<in> {0, 1, 2}"
    using assms(1) by (auto simp add: channel_of_cases)
  have ne: "index_of (selected (instrument st)) \<noteq> select"
    using assms channel_of_index_of [of "selected (instrument st)"] by auto
  show ?thesis
    using v ne assms(1)
    by (simp add: meas_current_def py_range_output_ch select_output_get_eff
        select_output_set_valid channel_of_cases current_get_eff sleep_def)
qed

lemma meas_voltage_other:
  assumes "channel_of select = Some c" and "selected (instrument st) \<noteq> c"
  shows "meas_voltage select st =
     (number (volt_reading (instrument st) c),
      st\<lparr>instrument := (instrument st)\<lparr>selected := c\<rparr>,
         trace := trace st @ [Query (lit ''INST:SEL?''), Write (lit ''INST:SEL '' @ lit (token c)),
                              Sleep 0.2, Query (lit '':MEAS:VOLT?'')]\<rparr>)"
proof -
  have v: "select \<in> {0, 1, 2}"
    using assms(1) by (auto simp add: channel_of_cases)
  have ne: "index_of (selected (instrument st)) \<noteq> select"
    using assms channel_of_index_of [of "selected (instrument st)"] by auto
  show ?thesis
    using v ne assms(1)
    by (simp add: meas_voltage_def py_range_output_ch select_output_get_eff
        select_output_set_valid channel_of_cases voltage_get_eff sleep_def)
qed

lemma bench_facts:
  "trace bench = []" "selected (instrument bench) = P6V"
  "voltage_setpoint_values bench = Some (0, 6.18)"
  "current_limit_values bench = Some (0, 5.15)"
  by (simp_all add: bench_def init_def bench_device_def)

lemma bench_readings:
  "number (curr_reading (instrument bench) P6V) = Inr (1 / 2)"
  "number (curr_reading (instrument bench) P25V) = Inr (1 / 10)"
  "number (volt_reading (instrument bench) P6V) = Inr 5"
  "number (volt_reading (instrument bench) P25V) = Inr 12"
  by (simp_all add: bench_def init_def bench_device_def number_def float_text_def lit_def
      float_str_def unsigned_decimal_def digit_of_def Let_def)

text \<open>
  C3, as the spec has it: when the active channel already is the requested one,
  \<^verbatim>\<open>meas_current\<close> (and \<^verbatim>\<open>meas_voltage\<close>) performs exactly one transport round-trip, the
  measurement read. On the bench, where the +6V output (channel 0) is active, measuring
  on channel 0 does not take one round-trip: the test \<^verbatim>\<open>self.select_output == select\<close>
  is itself a query to the instrument.
\<close>

theorem measure_active_channel_counterexample:
  "index_of (selected (instrument bench)) = 0 \<and> trace bench = [] \<and>
   round_trips (trace (snd (meas_current 0 bench))) \<noteq> 1 \<and>
   round_trips (trace (snd (meas_voltage 0 bench))) \<noteq> 1"
  by (simp add: meas_current_same meas_voltage_same bench_facts index_of_def round_trips_def
      lit_def)

text \<open>
  C3, amended: for every channel in \<open>{0, 1, 2}\<close>, when the instrument's active channel
  already is the requested one, \<^verbatim>\<open>meas_current\<close> (and likewise \<^verbatim>\<open>meas_voltage\<close>) performs
  exactly two transport round-trips, the query of the active-channel selector and then
  the measurement read, with no selection write and no settling delay; it returns the
  number read and changes nothing else.
\<close>

theorem measure_active_channel:
  "index_of (selected (instrument st)) = select \<Longrightarrow>
   meas_current select st =
     (number (curr_reading (instrument st) (selected (instrument st))),
      st\<lparr>trace := trace st @ [Query (lit ''INST:SEL?''), Query (lit '':MEAS:CURR?'')]\<rparr>) \<and>
   meas_voltage select st =
     (number (volt_reading (instrument st) (selected (instrument st))),
      st\<lparr>trace := trace st @ [Query (lit ''INST:SEL?''), Query (lit '':MEAS:VOLT?'')]\<rparr>)"
  using meas_current_same meas_voltage_same by blast

theorem measure_active_channel_witness:
  "index_of (selected (instrument bench)) = 0 \<and>
   meas_current 0 bench =
     (Inr (1 / 2), bench\<lparr>trace := [Query (lit ''INST:SEL?''), Query (lit '':MEAS:CURR?'')]\<rparr>) \<and>
   meas_voltage 0 bench =
     (Inr 5, bench\<lparr>trace := [Query (lit ''INST:SEL?''), Query (lit '':MEAS:VOLT?'')]\<rparr>)"
proof -
  have h: "index_of (selected (instrument bench)) = 0"
    by (simp add: bench_facts index_of_def)
  show ?thesis
    using h measure_active_channel [OF h]
    by (simp add: bench_facts bench_readings)
qed

text \<open>
  C4, as the spec has it: when the active channel differs from the requested one, the
  method performs exactly two transport round-trips, the selection write and the
  measurement read. On the bench, measuring on channel 1 does not take two: the query
  of the selector comes first.
\<close>

theorem measure_other_channel_counterexample:
  "channel_of 1 = Some P25V \<and> selected (instrument bench) \<noteq> P25V \<and> trace bench = [] \<and>
   round_trips (trace (snd (meas_current 1 bench))) \<noteq> 2 \<and>
   round_trips (trace (snd (meas_voltage 1 bench))) \<noteq> 2"
  by (simp add: meas_current_other [of 1 P25V] meas_voltage_other [of 1 P25V] tables_at_1
      bench_facts round_trips_def lit_def)

text \<open>
  C4, amended: for every channel in \<open>{0, 1, 2}\<close>, when the instrument's active channel
  differs from the requested one, \<^verbatim>\<open>meas_current\<close> (and likewise \<^verbatim>\<open>meas_voltage\<close>)
  performs exactly three transport operations in order, the query of the active-channel
  selector, the channel-selection write, and the measurement read, with one
  \<^verbatim>\<open>sleep(0.2)\<close> between the write and the read; the requested channel is then the
  active one and the number returned is its reading.
\<close>

theorem measure_other_channel:
  "channel_of select = Some c \<Longrightarrow> selected (instrument st) \<noteq> c \<Longrightarrow>
   meas_current select st =
     (number (curr_reading (instrument st) c),
      st\<lparr>instrument := (instrument st)\<lparr>selected := c\<rparr>,
         trace := trace st @ [Query (lit ''INST:SEL?''), Write (lit ''INST:SEL '' @ lit (token c)),
                              Sleep 0.2, Query (lit '':MEAS:CURR?'')]\<rparr>) \<and>
   meas_voltage select st =
     (number (volt_reading (instrument st) c),
      st\<lparr>instrument := (instrument st)\<lparr>selected := c\<rparr>,
         trace := trace st @ [Query (lit ''INST:SEL?''), Write (lit ''INST:SEL '' @ lit (token c)),
                              Sleep 0.2, Query (lit '':MEAS:VOLT?'')]\<rparr>)"
  using meas_current_other meas_voltage_other by blast

theorem measure_other_channel_witness:
  "channel_of 1 = Some P25V \<and> selected (instrument bench) \<noteq> P25V \<and>
   meas_current 1 bench =
     (Inr (1 / 10),
      bench\<lparr>instrument := (instrument bench)\<lparr>selected := P25V\<rparr>,
         trace := [Query (lit ''INST:SEL?''), Write (lit ''INST:SEL P25V''),
                   Sleep 0.2, Query (lit '':MEAS:CURR?'')]\<rparr>) \<and>
   meas_voltage 1 bench =
     (Inr 12,
      bench\<lparr>instrument := (instrument bench)\<lparr>selected := P25V\<rparr>,
         trace := [Query (lit ''INST:SEL?''), Write (lit ''INST:SEL P25V''),
                   Sleep 0.2, Query (lit '':MEAS:VOLT?'')]\<rparr>)"
proof -
  have h1: "channel_of 1 = Some P25V" by (rule tables_at_1)
  have h2: "selected (instrument bench) \<noteq> P25V" by (simp add: bench_facts)
  show ?thesis
    using h1 h2 measure_other_channel [OF h1 h2]
    by (simp add: bench_facts bench_readings lit_def)
qed

subsection \<open>C5: validation against the installed range\<close>

text \<open>
  The validator truncates: a value inside the range is kept, a value outside becomes
  the nearer bound. Neither setpoint method can therefore end in \<^verbatim>\<open>ValidationError\<close>.
\<close>

lemma truncated_range_inside:
  "fst r \<le> v \<Longrightarrow> v \<le> snd r \<Longrightarrow> truncated_range v r = v"
  by (auto simp add: truncated_range_def Let_def min_def max_def)

lemma truncated_range_bounds:
  "fst r \<le> snd r \<Longrightarrow> fst r \<le> truncated_range v r \<and> truncated_range v r \<le> snd r"
  by (auto simp add: truncated_range_def Let_def min_def max_def)

lemma set_voltage_never_validation_error:
  "fst (set_voltage v k st) \<noteq> Inl ValidationError"
proof (cases "k \<in> {0, 1, 2}")
  case True
  from ranges_defined [OF True] obtain c vr where
    "channel_of k = Some c" "map_of voltage_range k = Some vr" by blast
  then show ?thesis by (simp add: set_voltage_eff)
next
  case False
  then show ?thesis by (simp add: set_voltage_def py_range_output_ch)
qed

lemma set_current_never_validation_error:
  "fst (set_current v k st) \<noteq> Inl ValidationError"
proof (cases "k \<in> {0, 1, 2}")
  case True
  from ranges_defined [OF True] obtain c cr where
    "channel_of k = Some c" "map_of current_range k = Some cr" by blast
  then show ?thesis by (simp add: set_current_eff)
next
  case False
  then show ?thesis by (simp add: set_current_def py_range_output_ch)
qed

text \<open>
  C5, as the spec has it: on channel 0, whose range is \<open>[0, 6.18]\<close>, the value \<open>-1.0\<close>
  fails with \<^verbatim>\<open>ValidationError\<close> rather than being transmitted. With the truncating
  validator that both properties declare, \<^verbatim>\<open>set_voltage(-1.0, 0)\<close> does not fail: it
  selects the channel and transmits the lower bound \<open>0\<close>.
\<close>

theorem out_of_range_rejected_counterexample:
  "fst (set_voltage (- 1) 0 bench) \<noteq> Inl ValidationError \<and>
   trace (snd (set_voltage (- 1) 0 bench)) =
     [Write (lit ''INST:SEL P6V''), Write (lit '':SOUR:VOLT '' @ [Num 0])]"
  by (simp add: set_voltage_eff [OF tables_at_0(1) tables_at_0(2)] bench_facts
      truncated_range_def sig6_values lit_def)

text \<open>
  C5, amended: setpoint writes are truncated into the channel-specific range installed
  by \<^verbatim>\<open>set_voltage\<close>/\<^verbatim>\<open>set_current\<close>. Channel 2 transmits a negative voltage in
  \<open>[-25.75, 0]\<close> as it is (rendered by \<^verbatim>\<open>%g\<close>); on channel 0 (range \<open>[0, 6.18]\<close>) the
  out-of-range value \<open>-1.0\<close> is transmitted as the lower bound \<open>0\<close>; and no value on any
  channel makes \<^verbatim>\<open>set_voltage\<close> or \<^verbatim>\<open>set_current\<close> raise \<^verbatim>\<open>ValidationError\<close>.
\<close>

theorem setpoint_truncated_to_channel_range:
  "(- 25.75 \<le> v \<and> v \<le> 0 \<longrightarrow>
      set_voltage v 2 st =
        (Inr (), st\<lparr>voltage_setpoint_values := Some (- 25.75, 0),
           instrument := (instrument st)\<lparr>selected := N25V,
             volt_setpoint := (volt_setpoint (instrument st))(N25V := [Num (sig6 v)])\<rparr>,
           trace := trace st @ [Write (lit ''INST:SEL N25V''),
                                Write (lit '':SOUR:VOLT '' @ [Num (sig6 v)])]\<rparr>)) \<and>
   set_voltage (- 1) 0 st =
     (Inr (), st\<lparr>voltage_setpoint_values := Some (0, 6.18),
        instrument := (instrument st)\<lparr>selected := P6V,
          volt_setpoint := (volt_setpoint (instrument st))(P6V := [Num 0])\<rparr>,
        trace := trace st @ [Write (lit ''INST:SEL P6V''),
                             Write (lit '':SOUR:VOLT '' @ [Num 0])]\<rparr>) \<and>
   fst (set_voltage v k st) \<noteq> Inl ValidationError \<and>
   fst (set_current v k st) \<noteq> Inl ValidationError"
proof -
  have a: "- 25.75 \<le> v \<and> v \<le> 0 \<longrightarrow> truncated_range v (- 25.75, 0) = v"
    by (simp add: truncated_range_inside)
  have b: "sig6 (truncated_range (- 1) (0, 6.18)) = 0"
    by (simp add: truncated_range_def sig6_values)
  show ?thesis
    using a b
    by (simp add: set_voltage_eff [OF tables_at_2(1) tables_at_2(2)]
        set_voltage_eff [OF tables_at_0(1) tables_at_0(2)] lit_def
        set_voltage_never_validation_error set_current_never_validation_error)
qed

theorem setpoint_truncated_to_channel_range_witness:
  "(- 25.75::rat) \<le> - 12 \<and> (- 12::rat) \<le> 0 \<and>
   set_voltage (- 12) 2 bench =
     (Inr (), bench\<lparr>voltage_setpoint_values := Some (- 25.75, 0),
        instrument := (instrument bench)\<lparr>selected := N25V,
          volt_setpoint := (volt_setpoint (instrument bench))(N25V := [Num (- 12)])\<rparr>,
        trace := [Write (lit ''INST:SEL N25V''), Write (lit '':SOUR:VOLT '' @ [Num (- 12)])]\<rparr>) \<and>
   set_voltage (- 1) 0 bench =
     (Inr (), bench\<lparr>voltage_setpoint_values := Some (0, 6.18),
        instrument := (instrument bench)\<lparr>selected := P6V,
          volt_setpoint := (volt_setpoint (instrument bench))(P6V := [Num 0])\<rparr>,
        trace := [Write (lit ''INST:SEL P6V''), Write (lit '':SOUR:VOLT '' @ [Num 0])]\<rparr>)"
  using setpoint_truncated_to_channel_range [of "- 12" bench 0]
  by (simp add: bench_facts sig6_values)

subsection \<open>C6: set, then get\<close>

text \<open>
  The instrument of the model answers a setpoint query with the text it was sent, so
  what a get returns after a set is what the transmitted text denotes.
\<close>

lemma sig6_normal:
  "sig6 (309 / 50) = 309 / 50" "sig6 (6172839 / 5000000) = 123457 / 100000"
  by code_simp+

lemma float_text_num [simp]: "float_text [Num q] = Some q"
  by (simp add: float_text_def)

lemma number_num [simp]: "number [Num q] = Inr q"
  by (simp add: number_def)

lemma voltage_setpoint_get_eff:
  "voltage_setpoint_get st =
     (number (volt_setpoint (instrument st) (selected (instrument st))),
      st\<lparr>trace := trace st @ [Query (lit '':SOUR:VOLT?'')]\<rparr>)"
  by (simp add: voltage_setpoint_get_def control_get_def transport_ask_def dev_reply_def lit_def)

lemma current_limit_get_eff:
  "current_limit_get st =
     (number (curr_limit (instrument st) (selected (instrument st))),
      st\<lparr>trace := trace st @ [Query (lit '':SOUR:CURR?'')]\<rparr>)"
  by (simp add: current_limit_get_def control_get_def transport_ask_def dev_reply_def lit_def)

lemma voltage_setpoint_round_trip:
  "voltage_setpoint_values st = Some r \<Longrightarrow>
   fst (voltage_setpoint_get (snd (voltage_setpoint_set x st))) = Inr (sig6 (truncated_range x r))"
  by (simp add: voltage_setpoint_set_eff voltage_setpoint_get_eff)

lemma current_limit_round_trip:
  "current_limit_values st = Some r \<Longrightarrow>
   fst (current_limit_get (snd (current_limit_set x st))) = Inr (sig6 (truncated_range x r))"
  by (simp add: current_limit_set_eff current_limit_get_eff)

lemma applied_set_eff:
  "applied_set (v, c) st =
     (Inr (), st\<lparr>instrument := (instrument st)\<lparr>
          volt_setpoint := (volt_setpoint (instrument st))(selected (instrument st) := [Num (sig6 v)]),
          curr_limit := (curr_limit (instrument st))(selected (instrument st) := [Num (sig6 c)])\<rparr>,
        trace := trace st @ [Write (lit '':APPly '' @ [Num (sig6 v), Ch CHR '','', Num (sig6 c)])]\<rparr>)"
  by (simp add: applied_set_def control_set_def transport_write_def dev_write_def lit_def)

lemma applied_round_trip:
  "fst (applied_get (snd (applied_set (v, c) st))) = Inr (sig6 v, sig6 c)"
  by (simp add: applied_set_eff applied_get_def control_get_def transport_ask_def dev_reply_def
      lit_def dquote_def applied_get_process_def replace_dquote_def)

lemma set_output_on_round_trip:
  "fst (set_output_on_get (snd (set_output_on_set b st))) = Inr b"
  by (cases b)
     (simp_all add: set_output_on_set_def set_output_on_get_def control_set_def control_get_def
      map_value_def unmap_value_def strict_discrete_set_def output_on_values_def trunc0_def
      transport_write_def transport_ask_def dev_write_def dev_reply_def lit_def)

lemma select_output_round_trip:
  "k \<in> {0, 1, 2} \<Longrightarrow> fst (select_output_get (snd (select_output_set k st))) = Inr k"
  by (auto simp add: select_output_set_0 select_output_set_1 select_output_set_2
      select_output_get_eff index_of_def)

text \<open>
  C6, as the spec has it: for every settable property, set(x) then get() returns x up to
  the property's validation/truncation. The value \<open>1.2345678\<close> lies inside the default
  range \<open>[0, 6.18]\<close> of \<^verbatim>\<open>voltage_setpoint\<close>, so truncation leaves it alone; but the write
  format \<^verbatim>\<open>":SOUR:VOLT %g"\<close> transmits six significant digits, and the get returns
  \<open>1.23457\<close>.
\<close>

theorem round_trip_exact_counterexample:
  "voltage_setpoint_values bench = Some (0, 6.18) \<and>
   truncated_range 1.2345678 (0, 6.18) = 1.2345678 \<and>
   fst (voltage_setpoint_get (snd (voltage_setpoint_set 1.2345678 bench))) = Inr 1.23457 \<and>
   (1.23457::rat) \<noteq> 1.2345678"
  by (simp add: voltage_setpoint_round_trip [OF bench_facts(3)] bench_facts
      truncated_range_inside sig6_normal)

text \<open>
  C6, amended: against an instrument that answers a query with the text it was last
  sent, set(x) then get() returns: for \<^verbatim>\<open>voltage_setpoint\<close> and \<^verbatim>\<open>current_limit\<close>, x
  truncated to the property's current range and then rounded to the six significant
  digits of the \<^verbatim>\<open>%g\<close> write format; for \<^verbatim>\<open>applied\<close>, the pair with both components
  so rounded; for \<^verbatim>\<open>set_output_on\<close> and for \<^verbatim>\<open>select_output\<close> (on a valid channel), x
  itself. In particular \<^verbatim>\<open>voltage_setpoint\<close> set(10.0) under the default range
  \<open>[0, 6.18]\<close> transmits \<open>6.18\<close>.
\<close>

theorem round_trip_modulo_validation_and_format:
  "(voltage_setpoint_values st = Some vr \<longrightarrow>
      fst (voltage_setpoint_get (snd (voltage_setpoint_set x st))) =
        Inr (sig6 (truncated_range x vr))) \<and>
   (current_limit_values st = Some cr \<longrightarrow>
      fst (current_limit_get (snd (current_limit_set x st))) =
        Inr (sig6 (truncated_range x cr))) \<and>
   fst (applied_get (snd (applied_set (v, c) st))) = Inr (sig6 v, sig6 c) \<and>
   fst (set_output_on_get (snd (set_output_on_set b st))) = Inr b \<and>
   (k \<in> {0, 1, 2} \<longrightarrow> fst (select_output_get (snd (select_output_set k st))) = Inr k) \<and>
   trace (snd (voltage_setpoint_set 10 (init d))) = [Write (lit '':SOUR:VOLT '' @ [Num 6.18])]"
proof -
  have "voltage_setpoint_values (init d) = Some (0, 6.18)" "trace (init d) = []"
    by (simp_all add: init_def)
  then have "trace (snd (voltage_setpoint_set 10 (init d))) =
      [Write (lit '':SOUR:VOLT '' @ [Num 6.18])]"
    by (simp add: voltage_setpoint_set_eff truncated_range_def sig6_normal)
  then show ?thesis
    using voltage_setpoint_round_trip current_limit_round_trip applied_round_trip
      set_output_on_round_trip select_output_round_trip
    by blast
qed

theorem round_trip_modulo_validation_and_format_witness:
  "voltage_setpoint_values bench = Some (0, 6.18) \<and>
   current_limit_values bench = Some (0, 5.15) \<and>
   (1::int) \<in> {0, 1, 2} \<and>
   fst (voltage_setpoint_get (snd (voltage_setpoint_set 10 bench))) = Inr 6.18 \<and>
   fst (current_limit_get (snd (current_limit_set 3 bench))) = Inr 3 \<and>
   fst (applied_get (snd (applied_set (3, 1.2345678) bench))) = Inr (3, 1.23457) \<and>
   fst (set_output_on_get (snd (set_output_on_set True bench))) = Inr True \<and>
   fst (select_output_get (snd (select_output_set 1 bench))) = Inr 1 \<and>
   trace (snd (voltage_setpoint_set 10 (init bench_device))) =
     [Write (lit '':SOUR:VOLT '' @ [Num 6.18])]"
  using round_trip_modulo_validation_and_format
    [of bench "(0, 6.18)" 10 "(0, 5.15)" 3 "1.2345678" True 1 bench_device]
    round_trip_modulo_validation_and_format
    [of bench "(0, 6.18)" 3 "(0, 5.15)" 3 "1.2345678" True 1 bench_device]
  by (simp add: bench_facts truncated_range_def sig6_values sig6_normal)

subsection \<open>C7: indices and tokens of \<open>select_output\<close>\<close>

lemma select_output_get_reply:
  "select_output_get st =
     (select_output_process (dev_reply (lit ''INST:SEL?'') (instrument st)),
      st\<lparr>trace := trace st @ [Query (lit ''INST:SEL?'')]\<rparr>)"
  by (simp add: select_output_get_def control_get_def transport_ask_def)

lemma select_output_process_table:
  "select_output_process (lit ''P6V'') = Inr 0"
  "select_output_process (lit ''P25V'') = Inr 1"
  "select_output_process (lit ''N25V'') = Inr 2"
  by (simp_all add: select_output_process_def unmap_value_def output_ch_def)

text \<open>
  C7: \<^verbatim>\<open>select_output\<close> maps between the caller's integers and the wire tokens by the
  table 0/P6V, 1/P25V, 2/N25V. Setting it to 0, 1 or 2 writes \<^verbatim>\<open>INST:SEL\<close> with the token
  P6V, P25V or N25V (so setting it to 1 issues P25V); a get whose response is the token
  P6V, P25V or N25V returns 0, 1 or 2 (so the response N25V returns 2).
\<close>

theorem select_output_maps_index_and_token:
  "select_output_set 0 st =
     (Inr (), st\<lparr>instrument := (instrument st)\<lparr>selected := P6V\<rparr>,
        trace := trace st @ [Write (lit ''INST:SEL P6V'')]\<rparr>) \<and>
   select_output_set 1 st =
     (Inr (), st\<lparr>instrument := (instrument st)\<lparr>selected := P25V\<rparr>,
        trace := trace st @ [Write (lit ''INST:SEL P25V'')]\<rparr>) \<and>
   select_output_set 2 st =
     (Inr (), st\<lparr>instrument := (instrument st)\<lparr>selected := N25V\<rparr>,
        trace := trace st @ [Write (lit ''INST:SEL N25V'')]\<rparr>) \<and>
   (dev_reply (lit ''INST:SEL?'') (instrument st) = lit ''P6V'' \<longrightarrow>
      select_output_get st = (Inr 0, st\<lparr>trace := trace st @ [Query (lit ''INST:SEL?'')]\<rparr>)) \<and>
   (dev_reply (lit ''INST:SEL?'') (instrument st) = lit ''P25V'' \<longrightarrow>
      select_output_get st = (Inr 1, st\<lparr>trace := trace st @ [Query (lit ''INST:SEL?'')]\<rparr>)) \<and>
   (dev_reply (lit ''INST:SEL?'') (instrument st) = lit ''N25V'' \<longrightarrow>
      select_output_get st = (Inr 2, st\<lparr>trace := trace st @ [Query (lit ''INST:SEL?'')]\<rparr>))"
  by (simp add: select_output_set_0 select_output_set_1 select_output_set_2
      select_output_get_reply select_output_process_table)

theorem select_output_maps_index_and_token_witness:
  "dev_reply (lit ''INST:SEL?'') (instrument (snd (select_output_set 2 bench))) = lit ''N25V'' \<and>
   select_output_set 1 bench =
     (Inr (), bench\<lparr>instrument := (instrument bench)\<lparr>selected := P25V\<rparr>,
        trace := [Write (lit ''INST:SEL P25V'')]\<rparr>) \<and>
   fst (select_output_get (snd (select_output_set 2 bench))) = Inr 2 \<and>
   dev_reply (lit ''INST:SEL?'') (instrument bench) = lit ''P6V'' \<and>
   fst (select_output_get bench) = Inr 0 \<and>
   dev_reply (lit ''INST:SEL?'') (instrument (snd (select_output_set 1 bench))) = lit ''P25V'' \<and>
   fst (select_output_get (snd (select_output_set 1 bench))) = Inr 1"
proof -
  have r: "dev_reply (lit ''INST:SEL?'') (instrument (snd (select_output_set 2 bench))) = lit ''N25V''"
    "dev_reply (lit ''INST:SEL?'') (instrument bench) = lit ''P6V''"
    "dev_reply (lit ''INST:SEL?'') (instrument (snd (select_output_set 1 bench))) = lit ''P25V''"
    by (simp_all add: select_output_set_2 select_output_set_1 dev_reply_def bench_facts)
  show ?thesis
    using r select_output_maps_index_and_token [of bench]
      select_output_maps_index_and_token [of "snd (select_output_set 2 bench)"]
      select_output_maps_index_and_token [of "snd (select_output_set 1 bench)"]
    by (simp add: bench_facts)
qed

subsection \<open>C8: the response of \<open>applied\<close>\<close>

lemma split_on_no_sep: "d \<notin> set xs \<Longrightarrow> split_on d xs = [xs]"
  by (induction xs) auto

lemma split_on_first: "d \<notin> set xs \<Longrightarrow> split_on d (xs @ d # ys) = xs # split_on d ys"
  by (induction xs) auto

lemma replace_dquote_wrapped:
  "Ch dquote \<notin> set a \<Longrightarrow> replace_dquote (Ch dquote # a @ [Ch dquote]) = a"
  by (auto simp add: replace_dquote_def filter_id_conv)

lemma applied_get_reply:
  "applied_get st =
     (applied_get_process (split_on (Ch CHR '','') (dev_reply (lit '':APPly?'') (instrument st))),
      st\<lparr>trace := trace st @ [Query (lit '':APPly?'')]\<rparr>)"
  by (simp add: applied_get_def control_get_def transport_ask_def)

lemma applied_get_process_quoted:
  assumes "Ch dquote \<notin> set a" "Ch CHR '','' \<notin> set a" "float_text a = Some x"
    and "Ch dquote \<notin> set b" "Ch CHR '','' \<notin> set b" "float_text b = Some y"
  shows "applied_get_process (split_on (Ch CHR '','')
           ([Ch dquote] @ a @ [Ch dquote, Ch CHR '','', Ch dquote] @ b @ [Ch dquote])) = Inr (x, y)"
proof -
  have c: "Ch CHR '','' \<notin> set ([Ch dquote] @ a @ [Ch dquote])"
    "Ch CHR '','' \<notin> set ([Ch dquote] @ b @ [Ch dquote])"
    using assms by (simp_all add: dquote_def)
  have "[Ch dquote] @ a @ [Ch dquote, Ch CHR '','', Ch dquote] @ b @ [Ch dquote] =
        ([Ch dquote] @ a @ [Ch dquote]) @ Ch CHR '','' # ([Ch dquote] @ b @ [Ch dquote])"
    by simp
  then have "split_on (Ch CHR '','')
        ([Ch dquote] @ a @ [Ch dquote, Ch CHR '','', Ch dquote] @ b @ [Ch dquote]) =
      [[Ch dquote] @ a @ [Ch dquote], [Ch dquote] @ b @ [Ch dquote]]"
    using split_on_first [OF c(1)] split_on_no_sep [OF c(2)] by simp
  then show ?thesis
    using assms
    by (simp add: applied_get_process_def replace_dquote_wrapped)
qed

lemma float_text_examples:
  "float_text (lit ''1.500'') = Some (3 / 2)" "float_text (lit ''0.200'') = Some (1 / 5)"
  by (simp_all add: float_text_def lit_def float_str_def unsigned_decimal_def digit_of_def Let_def)

lemma no_marks:
  "Ch dquote \<notin> set (lit ''1.500'')" "Ch CHR '','' \<notin> set (lit ''1.500'')"
  "Ch dquote \<notin> set (lit ''0.200'')" "Ch CHR '','' \<notin> set (lit ''0.200'')"
  by (simp_all add: lit_def dquote_def)

lemma quoted_example:
  "[Ch dquote] @ lit ''1.500'' @ [Ch dquote, Ch CHR '','', Ch dquote] @ lit ''0.200'' @ [Ch dquote] =
   lit [dquote, CHR ''1'', CHR ''.'', CHR ''5'', CHR ''0'', CHR ''0'', dquote, CHR '','',
        dquote, CHR ''0'', CHR ''.'', CHR ''2'', CHR ''0'', CHR ''0'', dquote]"
  by (simp add: lit_def)

text \<open>
  C8: the get of \<^verbatim>\<open>applied\<close> turns a response of two comma-separated numbers, each
  wrapped in double quotes, into the pair of the two numbers; for the response
  \<^verbatim>\<open>"1.500","0.200"\<close> it returns \<open>(1.5, 0.2)\<close>. (The list in the statement spells that
  response character by character.)
\<close>

theorem applied_get_parses_quoted_pair:
  "(Ch dquote \<notin> set a \<and> Ch CHR '','' \<notin> set a \<and> float_text a = Some x \<and>
    Ch dquote \<notin> set b \<and> Ch CHR '','' \<notin> set b \<and> float_text b = Some y \<and>
    dev_reply (lit '':APPly?'') (instrument st) =
      [Ch dquote] @ a @ [Ch dquote, Ch CHR '','', Ch dquote] @ b @ [Ch dquote] \<longrightarrow>
    applied_get st = (Inr (x, y), st\<lparr>trace := trace st @ [Query (lit '':APPly?'')]\<rparr>)) \<and>
   (dev_reply (lit '':APPly?'') (instrument st) =
      lit [dquote, CHR ''1'', CHR ''.'', CHR ''5'', CHR ''0'', CHR ''0'', dquote, CHR '','',
           dquote, CHR ''0'', CHR ''.'', CHR ''2'', CHR ''0'', CHR ''0'', dquote] \<longrightarrow>
    applied_get st = (Inr (3 / 2, 1 / 5), st\<lparr>trace := trace st @ [Query (lit '':APPly?'')]\<rparr>))"
proof -
  have ex: "applied_get_process (split_on (Ch CHR '','')
      (lit [dquote, CHR ''1'', CHR ''.'', CHR ''5'', CHR ''0'', CHR ''0'', dquote, CHR '','',
            dquote, CHR ''0'', CHR ''.'', CHR ''2'', CHR ''0'', CHR ''0'', dquote])) =
      Inr (3 / 2, 1 / 5)"
    unfolding quoted_example [symmetric]
    by (rule applied_get_process_quoted) (simp_all add: float_text_examples no_marks)
  show ?thesis
    using ex applied_get_process_quoted [of a x b y]
    by (simp add: applied_get_reply)
qed

theorem applied_get_parses_quoted_pair_witness:
  "dev_reply (lit '':APPly?'')
      (instrument (bench\<lparr>instrument := bench_device\<lparr>volt_setpoint := (\<lambda>c. lit ''1.500''),
                                                    curr_limit := (\<lambda>c. lit ''0.200'')\<rparr>\<rparr>)) =
     lit [dquote, CHR ''1'', CHR ''.'', CHR ''5'', CHR ''0'', CHR ''0'', dquote, CHR '','',
          dquote, CHR ''0'', CHR ''.'', CHR ''2'', CHR ''0'', CHR ''0'', dquote] \<and>
   applied_get (bench\<lparr>instrument := bench_device\<lparr>volt_setpoint := (\<lambda>c. lit ''1.500''),
                                                curr_limit := (\<lambda>c. lit ''0.200'')\<rparr>\<rparr>) =
     (Inr (3 / 2, 1 / 5),
      bench\<lparr>instrument := bench_device\<lparr>volt_setpoint := (\<lambda>c. lit ''1.500''),
                                         curr_limit := (\<lambda>c. lit ''0.200'')\<rparr>,
            trace := [Query (lit '':APPly?'')]\<rparr>)"
proof -
  let ?st = "bench\<lparr>instrument := bench_device\<lparr>volt_setpoint := (\<lambda>c. lit ''1.500''),
                                                curr_limit := (\<lambda>c. lit ''0.200'')\<rparr>\<rparr>"
  have r: "dev_reply (lit '':APPly?'') (instrument ?st) =
     lit [dquote, CHR ''1'', CHR ''.'', CHR ''5'', CHR ''0'', CHR ''0'', dquote, CHR '','',
          dquote, CHR ''0'', CHR ''.'', CHR ''2'', CHR ''0'', CHR ''0'', dquote]"
    by (simp add: dev_reply_def lit_def dquote_def)
  show ?thesis
    using r applied_get_parses_quoted_pair [of "lit ''1.500''" "3 / 2" "lit ''0.200''" "1 / 5" ?st]
    by (simp add: bench_facts)
qed

subsection \<open>C9: the channel stays selected\<close>

lemma set_voltage_selected:
  assumes "fst (set_voltage v k st) = Inr u"
  shows "index_of (selected (instrument (snd (set_voltage v k st)))) = k"
proof -
  have v: "k \<in> {0, 1, 2}"
    using assms by (auto simp add: set_voltage_def py_range_output_ch split: if_splits)
  from ranges_defined [OF v] obtain c vr where
    h: "channel_of k = Some c" "map_of voltage_range k = Some vr" by blast
  then show ?thesis
    by (simp add: set_voltage_eff index_of_channel_of)
qed

lemma set_current_selected:
  assumes "fst (set_current v k st) = Inr u"
  shows "index_of (selected (instrument (snd (set_current v k st)))) = k"
proof -
  have v: "k \<in> {0, 1, 2}"
    using assms by (auto simp add: set_current_def py_range_output_ch split: if_splits)
  from ranges_defined [OF v] obtain c cr where
    h: "channel_of k = Some c" "map_of current_range k = Some cr" by blast
  then show ?thesis
    by (simp add: set_current_eff index_of_channel_of)
qed

lemma meas_voltage_selected:
  assumes "fst (meas_voltage k st) = Inr x"
  shows "index_of (selected (instrument (snd (meas_voltage k st)))) = k"
proof -
  have v: "k \<in> {0, 1, 2}"
    using assms by (auto simp add: meas_voltage_def py_range_output_ch split: if_splits)
  from ranges_defined [OF v] obtain c where h: "channel_of k = Some c" by blast
  show ?thesis
  proof (cases "selected (instrument st) = c")
    case True
    then have "index_of (selected (instrument st)) = k"
      using h by (simp add: index_of_channel_of)
    then show ?thesis by (simp add: meas_voltage_same)
  next
    case False
    then show ?thesis
      using h by (simp add: meas_voltage_other index_of_channel_of)
  qed
qed

lemma meas_current_selected:
  assumes "fst (meas_current k st) = Inr x"
  shows "index_of (selected (instrument (snd (meas_current k st)))) = k"
proof -
  have v: "k \<in> {0, 1, 2}"
    using assms by (auto simp add: meas_current_def py_range_output_ch split: if_splits)
  from ranges_defined [OF v] obtain c where h: "channel_of k = Some c" by blast
  show ?thesis
  proof (cases "selected (instrument st) = c")
    case True
    then have "index_of (selected (instrument st)) = k"
      using h by (simp add: index_of_channel_of)
    then show ?thesis by (simp add: meas_current_same)
  next
    case False
    then show ?thesis
      using h by (simp add: meas_current_other index_of_channel_of)
  qed
qed

lemma bench_readings_n25v:
  "number (curr_reading (instrument bench) N25V) = Inr (1 / 5)"
  "number (volt_reading (instrument bench) N25V) = Inr (- 12)"
  by (simp_all add: bench_def init_def bench_device_def number_def float_text_def lit_def
      float_str_def unsigned_decimal_def digit_of_def Let_def)

text \<open>
  C9: no channel-scoped operation restores the channel that was active before it. After
  a successful \<^verbatim>\<open>set_voltage\<close>, \<^verbatim>\<open>set_current\<close>, \<^verbatim>\<open>meas_voltage\<close> or \<^verbatim>\<open>meas_current\<close> with
  channel \<open>k\<close>, a direct read of \<^verbatim>\<open>select_output\<close> returns \<open>k\<close>.
\<close>

theorem scoped_call_leaves_channel_selected:
  "(fst (set_voltage v k st) = Inr u \<longrightarrow>
      fst (select_output_get (snd (set_voltage v k st))) = Inr k) \<and>
   (fst (set_current v k st) = Inr u \<longrightarrow>
      fst (select_output_get (snd (set_current v k st))) = Inr k) \<and>
   (fst (meas_voltage k st) = Inr x \<longrightarrow>
      fst (select_output_get (snd (meas_voltage k st))) = Inr k) \<and>
   (fst (meas_current k st) = Inr y \<longrightarrow>
      fst (select_output_get (snd (meas_current k st))) = Inr k)"
  by (simp add: select_output_get_eff set_voltage_selected set_current_selected
      meas_voltage_selected meas_current_selected)

theorem scoped_call_leaves_channel_selected_witness:
  "fst (select_output_get bench) = Inr 0 \<and>
   fst (set_voltage (- 12) 2 bench) = Inr () \<and>
   fst (select_output_get (snd (set_voltage (- 12) 2 bench))) = Inr 2 \<and>
   fst (set_current (- 12) 2 bench) = Inr () \<and>
   fst (select_output_get (snd (set_current (- 12) 2 bench))) = Inr 2 \<and>
   fst (meas_voltage 2 bench) = Inr (- 12) \<and>
   fst (select_output_get (snd (meas_voltage 2 bench))) = Inr 2 \<and>
   fst (meas_current 2 bench) = Inr (1 / 5) \<and>
   fst (select_output_get (snd (meas_current 2 bench))) = Inr 2"
proof -
  have a: "fst (set_voltage (- 12) 2 bench) = Inr ()" "fst (set_current (- 12) 2 bench) = Inr ()"
    by (simp_all add: set_voltage_eff [OF tables_at_2(1) tables_at_2(2)]
        set_current_eff [OF tables_at_2(1) tables_at_2(3)])
  have b: "fst (meas_voltage 2 bench) = Inr (- 12)" "fst (meas_current 2 bench) = Inr (1 / 5)"
    by (simp_all add: meas_voltage_other [OF tables_at_2(1)] meas_current_other [OF tables_at_2(1)]
        bench_facts bench_readings_n25v)
  have c: "fst (select_output_get bench) = Inr 0"
    by (simp add: select_output_get_eff bench_facts index_of_def)
  show ?thesis
    using a b c scoped_call_leaves_channel_selected [of "- 12" 2 bench "()" "- 12" "1 / 5"]
    by simp
qed

subsection \<open>C10: the installed range persists\<close>

text \<open>
  Which calls touch the two range attributes: \<^verbatim>\<open>set_current\<close> assigns
  \<^verbatim>\<open>current_limit_values\<close>, \<^verbatim>\<open>set_voltage\<close> assigns \<^verbatim>\<open>voltage_setpoint_values\<close>, and no
  other method or property access assigns either.
\<close>

lemma control_set_ranges:
  "voltage_setpoint_values (snd (control_set f a st)) = voltage_setpoint_values st"
  "current_limit_values (snd (control_set f a st)) = current_limit_values st"
  by (simp_all add: control_set_def transport_write_def split: sum.splits option.splits)

lemma control_get_ranges:
  "voltage_setpoint_values (snd (control_get f p st)) = voltage_setpoint_values st"
  "current_limit_values (snd (control_get f p st)) = current_limit_values st"
  by (simp_all add: control_get_def transport_ask_def)

lemma select_output_set_ranges:
  "voltage_setpoint_values (snd (select_output_set k st)) = voltage_setpoint_values st"
  "current_limit_values (snd (select_output_set k st)) = current_limit_values st"
  by (simp_all add: select_output_set_def control_set_ranges)

lemma select_output_get_ranges:
  "voltage_setpoint_values (snd (select_output_get st)) = voltage_setpoint_values st"
  "current_limit_values (snd (select_output_get st)) = current_limit_values st"
  by (simp_all add: select_output_get_def control_get_ranges)

lemma set_voltage_keeps_current_range:
  "current_limit_values (snd (set_voltage v k st)) = current_limit_values st"
proof (cases "k \<in> set (py_range (length output_ch))")
  case False
  then show ?thesis by (simp add: set_voltage_def)
next
  case True
  obtain r st1 where p: "select_output_set k st = (r, st1)" by (cases "select_output_set k st")
  then have f: "current_limit_values st1 = current_limit_values st"
    using select_output_set_ranges(2) [of k st] by simp
  show ?thesis
  proof (cases r)
    case (Inl e)
    then show ?thesis using True p f by (simp add: set_voltage_def)
  next
    case (Inr u)
    then show ?thesis
      using True p f
      by (simp add: set_voltage_def voltage_setpoint_set_def control_set_ranges)
  qed
qed

lemma set_current_keeps_voltage_range:
  "voltage_setpoint_values (snd (set_current v k st)) = voltage_setpoint_values st"
proof (cases "k \<in> set (py_range (length output_ch))")
  case False
  then show ?thesis by (simp add: set_current_def)
next
  case True
  obtain r st1 where p: "select_output_set k st = (r, st1)" by (cases "select_output_set k st")
  then have f: "voltage_setpoint_values st1 = voltage_setpoint_values st"
    using select_output_set_ranges(1) [of k st] by simp
  show ?thesis
  proof (cases r)
    case (Inl e)
    then show ?thesis using True p f by (simp add: set_current_def)
  next
    case (Inr u)
    then show ?thesis
      using True p f
      by (simp add: set_current_def current_limit_set_def control_set_ranges)
  qed
qed

lemma sleep_ranges:
  "voltage_setpoint_values (sleep t st) = voltage_setpoint_values st"
  "current_limit_values (sleep t st) = current_limit_values st"
  by (simp_all add: sleep_def)

lemma meas_current_ranges:
  "voltage_setpoint_values (snd (meas_current k st)) = voltage_setpoint_values st \<and>
   current_limit_values (snd (meas_current k st)) = current_limit_values st"
proof (cases "k \<in> set (py_range (length output_ch))")
  case False
  then show ?thesis by (simp add: meas_current_def)
next
  case True
  obtain r st1 where p: "select_output_get st = (r, st1)" by (cases "select_output_get st")
  then have f: "voltage_setpoint_values st1 = voltage_setpoint_values st"
    "current_limit_values st1 = current_limit_values st"
    using select_output_get_ranges [of st] by simp_all
  show ?thesis
  proof (cases r)
    case (Inl e)
    then show ?thesis using True p f by (simp add: meas_current_def)
  next
    case (Inr active)
    show ?thesis
    proof (cases "active = k")
      case same: True
      then show ?thesis
        using True p f Inr by (simp add: meas_current_def current_get_def control_get_ranges)
    next
      case other: False
      obtain r2 st2 where q: "select_output_set k st1 = (r2, st2)"
        by (cases "select_output_set k st1")
      then have g: "voltage_setpoint_values st2 = voltage_setpoint_values st"
        "current_limit_values st2 = current_limit_values st"
        using select_output_set_ranges [of k st1] f by simp_all
      show ?thesis
      proof (cases r2)
        case (Inl e)
        then show ?thesis using True p q g Inr other by (simp add: meas_current_def)
      next
        case inr: (Inr u)
        then show ?thesis
          using True p q g Inr other
          by (simp add: meas_current_def current_get_def control_get_ranges sleep_ranges)
      qed
    qed
  qed
qed

lemma meas_voltage_ranges:
  "voltage_setpoint_values (snd (meas_voltage k st)) = voltage_setpoint_values st \<and>
   current_limit_values (snd (meas_voltage k st)) = current_limit_values st"
proof (cases "k \<in> set (py_range (length output_ch))")
  case False
  then show ?thesis by (simp add: meas_voltage_def)
next
  case True
  obtain r st1 where p: "select_output_get st = (r, st1)" by (cases "select_output_get st")
  then have f: "voltage_setpoint_values st1 = voltage_setpoint_values st"
    "current_limit_values st1 = current_limit_values st"
    using select_output_get_ranges [of st] by simp_all
  show ?thesis
  proof (cases r)
    case (Inl e)
    then show ?thesis using True p f by (simp add: meas_voltage_def)
  next
    case (Inr active)
    show ?thesis
    proof (cases "active = k")
      case same: True
      then show ?thesis
        using True p f Inr by (simp add: meas_voltage_def voltage_get_def control_get_ranges)
    next
      case other: False
      obtain r2 st2 where q: "select_output_set k st1 = (r2, st2)"
        by (cases "select_output_set k st1")
      then have g: "voltage_setpoint_values st2 = voltage_setpoint_values st"
        "current_limit_values st2 = current_limit_values st"
        using select_output_set_ranges [of k st1] f by simp_all
      show ?thesis
      proof (cases r2)
        case (Inl e)
        then show ?thesis using True p q g Inr other by (simp add: meas_voltage_def)
      next
        case inr: (Inr u)
        then show ?thesis
          using True p q g Inr other
          by (simp add: meas_voltage_def voltage_get_def control_get_ranges sleep_ranges)
      qed
    qed
  qed
qed

lemma transport_write_ranges:
  "voltage_setpoint_values (snd (transport_write c st)) = voltage_setpoint_values st"
  "current_limit_values (snd (transport_write c st)) = current_limit_values st"
  by (simp_all add: transport_write_def)

lemma exec_keeps_current_range:
  "\<not> is_set_current c \<Longrightarrow> current_limit_values (exec c st) = current_limit_values st"
  by (cases c)
     (simp_all add: set_voltage_keeps_current_range meas_current_ranges meas_voltage_ranges
      set_remote_def set_local_def transport_write_ranges set_output_on_set_def
      voltage_setpoint_set_def current_limit_set_def applied_set_def select_output_set_ranges
      control_set_ranges vers_get_def set_output_on_get_def voltage_setpoint_get_def
      current_limit_get_def voltage_get_def current_get_def applied_get_def
      select_output_get_ranges control_get_ranges)

lemma exec_keeps_voltage_range:
  "\<not> is_set_voltage c \<Longrightarrow> voltage_setpoint_values (exec c st) = voltage_setpoint_values st"
  by (cases c)
     (simp_all add: set_current_keeps_voltage_range meas_current_ranges meas_voltage_ranges
      set_remote_def set_local_def transport_write_ranges set_output_on_set_def
      voltage_setpoint_set_def current_limit_set_def applied_set_def select_output_set_ranges
      control_set_ranges vers_get_def set_output_on_get_def voltage_setpoint_get_def
      current_limit_get_def voltage_get_def current_get_def applied_get_def
      select_output_get_ranges control_get_ranges)

lemma run_keeps_current_range:
  "list_all (\<lambda>c. \<not> is_set_current c) calls \<Longrightarrow>
   current_limit_values (run calls st) = current_limit_values st"
  by (induction calls arbitrary: st) (simp_all add: exec_keeps_current_range)

lemma run_keeps_voltage_range:
  "list_all (\<lambda>c. \<not> is_set_voltage c) calls \<Longrightarrow>
   voltage_setpoint_values (run calls st) = voltage_setpoint_values st"
  by (induction calls arbitrary: st) (simp_all add: exec_keeps_voltage_range)

lemma sig6_bounds:
  "sig6 (103 / 100) = 103 / 100" "sig6 (103 / 4) = 103 / 4"
  by code_simp+

text \<open>
  C10: after \<^verbatim>\<open>set_current(value, k)\<close> (respectively \<^verbatim>\<open>set_voltage(value, k)\<close>) on a
  valid channel, the range of channel \<open>k\<close> is the range of \<^verbatim>\<open>current_limit\<close>
  (respectively \<^verbatim>\<open>voltage_setpoint\<close>) after any sequence of later calls that contains no
  other \<^verbatim>\<open>set_current\<close> (respectively \<^verbatim>\<open>set_voltage\<close>), and a direct assignment to the
  property made then transmits the value truncated to that range: the override is state
  of the object, not scoped to the call.
\<close>

theorem installed_range_persists:
  assumes "k \<in> {0, 1, 2}"
  shows
   "(list_all (\<lambda>c. \<not> is_set_current c) cs \<longrightarrow>
      (\<exists>r. map_of current_range k = Some r \<and>
           current_limit_values (run cs (snd (set_current v k st))) = Some r \<and>
           fst (current_limit_set x (run cs (snd (set_current v k st)))) = Inr () \<and>
           trace (snd (current_limit_set x (run cs (snd (set_current v k st))))) =
             trace (run cs (snd (set_current v k st))) @
               [Write (lit '':SOUR:CURR '' @ [Num (sig6 (truncated_range x r))])])) \<and>
    (list_all (\<lambda>c. \<not> is_set_voltage c) vs \<longrightarrow>
      (\<exists>r. map_of voltage_range k = Some r \<and>
           voltage_setpoint_values (run vs (snd (set_voltage v k st))) = Some r \<and>
           fst (voltage_setpoint_set x (run vs (snd (set_voltage v k st)))) = Inr () \<and>
           trace (snd (voltage_setpoint_set x (run vs (snd (set_voltage v k st))))) =
             trace (run vs (snd (set_voltage v k st))) @
               [Write (lit '':SOUR:VOLT '' @ [Num (sig6 (truncated_range x r))])]))"
proof -
  from ranges_defined [OF assms] obtain c vr cr where
    h: "channel_of k = Some c" "map_of voltage_range k = Some vr"
       "map_of current_range k = Some cr"
    by blast
  have ci: "current_limit_values (snd (set_current v k st)) = Some cr"
    by (simp add: set_current_eff [OF h(1) h(3)])
  have vi: "voltage_setpoint_values (snd (set_voltage v k st)) = Some vr"
    by (simp add: set_voltage_eff [OF h(1) h(2)])
  have a: "list_all (\<lambda>c. \<not> is_set_current c) cs \<Longrightarrow>
      current_limit_values (run cs (snd (set_current v k st))) = Some cr"
    using ci by (simp add: run_keeps_current_range)
  have b: "list_all (\<lambda>c. \<not> is_set_voltage c) vs \<Longrightarrow>
      voltage_setpoint_values (run vs (snd (set_voltage v k st))) = Some vr"
    using vi by (simp add: run_keeps_voltage_range)
  show ?thesis
    using a b h
    by (simp add: current_limit_set_eff voltage_setpoint_set_eff)
qed

theorem installed_range_persists_witness:
  "(1::int) \<in> {0, 1, 2} \<and>
   current_limit_values bench = Some (0, 5.15) \<and>
   voltage_setpoint_values bench = Some (0, 6.18) \<and>
   list_all (\<lambda>c. \<not> is_set_current c)
     [Meas_voltage 0, Assign_current_limit 5, Set_voltage 3 2, Read_applied] \<and>
   current_limit_values
     (run [Meas_voltage 0, Assign_current_limit 5, Set_voltage 3 2, Read_applied]
        (snd (set_current (1 / 2) 1 bench))) = Some (0, 1.03) \<and>
   trace (snd (current_limit_set 5
     (run [Meas_voltage 0, Assign_current_limit 5, Set_voltage 3 2, Read_applied]
        (snd (set_current (1 / 2) 1 bench))))) =
   trace (run [Meas_voltage 0, Assign_current_limit 5, Set_voltage 3 2, Read_applied]
        (snd (set_current (1 / 2) 1 bench))) @ [Write (lit '':SOUR:CURR '' @ [Num 1.03])] \<and>
   list_all (\<lambda>c. \<not> is_set_voltage c)
     [Meas_current 0, Assign_voltage_setpoint 30, Set_current 1 0, Read_select_output] \<and>
   voltage_setpoint_values
     (run [Meas_current 0, Assign_voltage_setpoint 30, Set_current 1 0, Read_select_output]
        (snd (set_voltage (1 / 2) 1 bench))) = Some (0, 25.75) \<and>
   trace (snd (voltage_setpoint_set 30
     (run [Meas_current 0, Assign_voltage_setpoint 30, Set_current 1 0, Read_select_output]
        (snd (set_voltage (1 / 2) 1 bench))))) =
   trace (run [Meas_current 0, Assign_voltage_setpoint 30, Set_current 1 0, Read_select_output]
        (snd (set_voltage (1 / 2) 1 bench))) @ [Write (lit '':SOUR:VOLT '' @ [Num 25.75])]"
proof -
  let ?cs = "[Meas_voltage 0, Assign_current_limit 5, Set_voltage 3 2, Read_applied]"
  let ?vs = "[Meas_current 0, Assign_voltage_setpoint 30, Set_current 1 0, Read_select_output]"
  have k: "(1::int) \<in> {0, 1, 2}" by simp
  have l: "list_all (\<lambda>c. \<not> is_set_current c) ?cs" "list_all (\<lambda>c. \<not> is_set_voltage c) ?vs"
    by simp_all
  have t: "sig6 (truncated_range 5 (0, 1.03)) = 1.03" "sig6 (truncated_range 30 (0, 25.75)) = 25.75"
    by (simp_all add: truncated_range_def sig6_bounds)
  from installed_range_persists [OF k, of ?cs "1 / 2" bench 5 ?vs]
    installed_range_persists [OF k, of ?cs "1 / 2" bench 30 ?vs] l
  obtain r r' where
    c: "map_of current_range 1 = Some r"
       "current_limit_values (run ?cs (snd (set_current (1 / 2) 1 bench))) = Some r"
       "trace (snd (current_limit_set 5 (run ?cs (snd (set_current (1 / 2) 1 bench))))) =
          trace (run ?cs (snd (set_current (1 / 2) 1 bench))) @
            [Write (lit '':SOUR:CURR '' @ [Num (sig6 (truncated_range 5 r))])]"
    and v: "map_of voltage_range 1 = Some r'"
       "voltage_setpoint_values (run ?vs (snd (set_voltage (1 / 2) 1 bench))) = Some r'"
       "trace (snd (voltage_setpoint_set 30 (run ?vs (snd (set_voltage (1 / 2) 1 bench))))) =
          trace (run ?vs (snd (set_voltage (1 / 2) 1 bench))) @
            [Write (lit '':SOUR:VOLT '' @ [Num (sig6 (truncated_range 30 r'))])]"
    by blast
  from c(1) v(1) have r: "r = (0, 1.03)" "r' = (0, 25.75)"
    using tables_at_1 by simp_all
  show ?thesis
    using k l c(2,3) v(2,3) t unfolding r
    by (simp only: bench_facts simp_thms)
qed

end
